theory Spec2Isabelle
  imports Complex_Main
begin

section \<open>JavaScript values used by the payment code\<close>

text \<open>
  A JavaScript Number is modelled as an exact real number: the arithmetic of the source
  (\<open>*\<close>, \<open>/\<close>, \<open>Math.floor\<close>, \<open>Math.round\<close>, \<open>toFixed(2)\<close>) is taken
  without the rounding error of IEEE doubles. \<open>NaN\<close> only arises from \<open>parseFloat\<close>
  and is the value \<open>None\<close> of its result. A \<open>Date\<close> is its number of milliseconds,
  a MongoDB ObjectId is a natural number.
\<close>

type_synonym js_number = real
type_synonym date = int
type_synonym object_id = nat

definition digit_char :: "nat \<Rightarrow> char" where
  "digit_char d = ''0123456789'' ! d"

function show_nat :: "nat \<Rightarrow> string" where
  "show_nat n = (if n < 10 then [digit_char n] else show_nat (n div 10) @ [digit_char (n mod 10)])"
  by pat_completeness auto
termination
  by (relation "measure id") auto

declare show_nat.simps [simp del]

definition show_int :: "int \<Rightarrow> string" where
  \<comment> \<open>the text a template literal gives an integral Number\<close>
  "show_int i = (if i < 0 then CHR ''-'' # show_nat (nat (- i)) else show_nat (nat i))"

definition Math_round :: "js_number \<Rightarrow> int" where
  \<comment> \<open>\<open>Math.round\<close>: the nearest integer, a half going up\<close>
  "Math_round x = \<lfloor>x + 1 / 2\<rfloor>"

definition pad2 :: "nat \<Rightarrow> string" where
  "pad2 n = (if n < 10 then CHR ''0'' # show_nat n else show_nat n)"

definition toFixed2 :: "js_number \<Rightarrow> string" where
  \<comment> \<open>\<open>x.toFixed(2)\<close> below \<open>1e21\<close>: the sign, then the nearest multiple of 0.01 to
      \<open>|x|\<close>, a half going up\<close>
  "toFixed2 x =
     (let n = nat (Math_round (\<bar>x\<bar> * 100));
          digits = show_nat (n div 100) @ ''.'' @ pad2 (n mod 100)
      in if x < 0 then CHR ''-'' # digits else digits)"

definition toFixed2_value :: "js_number \<Rightarrow> js_number" where
  \<comment> \<open>\<open>parseFloat(x.toFixed(2))\<close>: the number the two-decimal text denotes\<close>
  "toFixed2_value x =
     (let n = Math_round (\<bar>x\<bar> * 100)
      in if x < 0 then - (of_int n / 100) else of_int n / 100)"

definition lower_char :: "char \<Rightarrow> char" where
  "lower_char c =
     (case map_of (zip ''ABCDEFGHIJKLMNOPQRSTUVWXYZ'' ''abcdefghijklmnopqrstuvwxyz'') c of
        Some l \<Rightarrow> l
      | None \<Rightarrow> c)"

definition toLowerCase :: "string \<Rightarrow> string" where
  "toLowerCase s = map lower_char s"

definition slice_last :: "nat \<Rightarrow> string \<Rightarrow> string" where
  \<comment> \<open>\<open>s.slice(-k)\<close>\<close>
  "slice_last k s = drop (length s - k) s"

section \<open>Price feed cache (utils/cryptoRates)\<close>

record cache_entry =
  ce_value :: "js_number option"
  ce_expiresAt :: date

record rate_cache =
  solUsd :: cache_entry
  usdtUsd :: cache_entry

definition empty_cache :: rate_cache where
  "empty_cache =
     \<lparr>solUsd = \<lparr>ce_value = None, ce_expiresAt = 0\<rparr>,
      usdtUsd = \<lparr>ce_value = None, ce_expiresAt = 0\<rparr>\<rparr>"

definition ONE_MINUTE_MS :: int where
  "ONE_MINUTE_MS = 60 * 1000"

text \<open>
  What \<open>axios.get\<close> gives: it throws (network error, timeout, non-2xx status), or it
  returns a body whose rate field is a Number or is anything else (\<open>None\<close>).
\<close>

datatype fetch_result = FetchThrows string | FetchReturns "js_number option"

text \<open>
  The process environment read by the rate functions: the fallback variables and the
  outcome \<open>parseFloat\<close> has on their text (\<open>None\<close> is \<open>NaN\<close>).
\<close>

record rate_env =
  SOL_USD_FALLBACK_RATE :: "string option"
  USDT_USD_FALLBACK_RATE :: "string option"
  parseFloat :: "string \<Rightarrow> js_number option"
  fetch_solana :: fetch_result
  fetch_tether :: fetch_result

definition truthy_number :: "js_number option \<Rightarrow> bool" where
  \<comment> \<open>a cached value is truthy when it is a Number other than zero\<close>
  "truthy_number v = (case v of None \<Rightarrow> False | Some x \<Rightarrow> x \<noteq> 0)"

definition truthy_string :: "string option \<Rightarrow> bool" where
  "truthy_string v = (case v of None \<Rightarrow> False | Some s \<Rightarrow> s \<noteq> [])"

record rate_outcome =
  ro_rate :: "string + js_number"
  ro_cache :: rate_cache
  ro_network_calls :: nat

definition valid_rate :: "fetch_result \<Rightarrow> string \<Rightarrow> string + js_number" where
  \<comment> \<open>the body of the \<open>try\<close>: the fetch, then the check of the rate\<close>
  "valid_rate f invalid_msg =
     (case f of
        FetchThrows msg \<Rightarrow> Inl msg
      | FetchReturns None \<Rightarrow> Inl invalid_msg
      | FetchReturns (Some rate) \<Rightarrow> if rate \<le> 0 then Inl invalid_msg else Inr rate)"

definition fetch_fails :: "fetch_result \<Rightarrow> bool" where
  \<comment> \<open>the \<open>try\<close> block throws: the request fails, or the rate is not a positive Number\<close>
  "fetch_fails f =
     (case f of
        FetchThrows msg \<Rightarrow> True
      | FetchReturns None \<Rightarrow> True
      | FetchReturns (Some rate) \<Rightarrow> rate \<le> 0)"

definition getSolUsdRate :: "date \<Rightarrow> rate_env \<Rightarrow> rate_cache \<Rightarrow> rate_outcome" where
  "getSolUsdRate now env cache =
     (if truthy_number (ce_value (solUsd cache)) \<and> ce_expiresAt (solUsd cache) > now
      then \<lparr>ro_rate = Inr (the (ce_value (solUsd cache))), ro_cache = cache, ro_network_calls = 0\<rparr>
      else case valid_rate (fetch_solana env) ''Invalid SOL/USD rate from provider'' of
        Inr rate \<Rightarrow>
          \<lparr>ro_rate = Inr rate,
           ro_cache = cache\<lparr>solUsd := \<lparr>ce_value = Some rate, ce_expiresAt = now + ONE_MINUTE_MS\<rparr>\<rparr>,
           ro_network_calls = 1\<rparr>
      | Inl err \<Rightarrow>
          (case (if truthy_string (SOL_USD_FALLBACK_RATE env)
                 then parseFloat env (the (SOL_USD_FALLBACK_RATE env)) else None) of
             Some fallback \<Rightarrow>
               if fallback > 0
               then \<lparr>ro_rate = Inr fallback, ro_cache = cache, ro_network_calls = 1\<rparr>
               else \<lparr>ro_rate = Inl err, ro_cache = cache, ro_network_calls = 1\<rparr>
           | None \<Rightarrow> \<lparr>ro_rate = Inl err, ro_cache = cache, ro_network_calls = 1\<rparr>))"

definition getUsdtUsdRate :: "date \<Rightarrow> rate_env \<Rightarrow> rate_cache \<Rightarrow> rate_outcome" where
  "getUsdtUsdRate now env cache =
     (if truthy_number (ce_value (usdtUsd cache)) \<and> ce_expiresAt (usdtUsd cache) > now
      then \<lparr>ro_rate = Inr (the (ce_value (usdtUsd cache))), ro_cache = cache, ro_network_calls = 0\<rparr>
      else case valid_rate (fetch_tether env) ''Invalid USDT/USD rate from provider'' of
        Inr rate \<Rightarrow>
          \<lparr>ro_rate = Inr rate,
           ro_cache = cache\<lparr>usdtUsd := \<lparr>ce_value = Some rate, ce_expiresAt = now + ONE_MINUTE_MS\<rparr>\<rparr>,
           ro_network_calls = 1\<rparr>
      | Inl err \<Rightarrow>
          (let fallback = 1;
               envFallback =
                 (if truthy_string (USDT_USD_FALLBACK_RATE env)
                  then parseFloat env (the (USDT_USD_FALLBACK_RATE env)) else None);
               chosen =
                 (case envFallback of
                    Some f \<Rightarrow> if f > 0 then f else fallback
                  | None \<Rightarrow> fallback)
           in \<lparr>ro_rate = Inr chosen,
               ro_cache = cache\<lparr>usdtUsd := \<lparr>ce_value = Some chosen, ce_expiresAt = now + ONE_MINUTE_MS\<rparr>\<rparr>,
               ro_network_calls = 1\<rparr>))"

section \<open>Chain verifiers (utils/blockchainVerification)\<close>

text \<open>
  The uniform result of both verifiers, \<open>{verified, amount?, fromAddress?,
  confirmationCount?, error?}\<close>: the first three fields are present exactly when
  \<open>verified\<close> is true, the error text exactly when it is false.
\<close>

datatype verification_result =
  Verified (vr_amount: js_number) (vr_fromAddress: "string option") (vr_confirmationCount: int)
| NotVerified (vr_error: string)

record evm_log =
  log_address :: string
  log_topics :: "string list"
  log_data :: nat

record receipt =
  r_status :: "int option"
  r_blockNumber :: int
  r_logs :: "evm_log list"

record evm_tx =
  tx_data :: string

text \<open>
  What the BSC node and the ethers library answer during one call. A call that throws
  is \<open>Inl\<close> of the error's message.
\<close>

record bsc_chain =
  BSC_RPC_URL :: "string option"
  getTransactionReceipt :: "string \<Rightarrow> string + receipt option"
  getBlockNumber :: "string + int"
  getTransaction :: "string \<Rightarrow> string + evm_tx option"
  token_decimals :: "string + nat"
  ethers_getAddress :: "string \<Rightarrow> string + string"

definition USDT_BSC_CONTRACT :: string where
  "USDT_BSC_CONTRACT = ''0x55d398326f99059fF775485246999027B3197955''"

definition transferEventSignature :: string where
  "transferEventSignature = ''0xddf252ad1be2c89b69c2b068fc378daa952ba7f163c4a11628f55a4df523b3ef''"

definition type_error_message :: "string \<Rightarrow> string \<Rightarrow> string" where
  \<comment> \<open>the message of the TypeError of a property read on \<open>undefined\<close> or \<open>null\<close>\<close>
  "type_error_message what prop =
     ''Cannot read properties of '' @ what @ '' (reading '' @ [CHR 0x27] @ prop @ [CHR 0x27] @ '')''"

definition bep20_catch :: "string \<Rightarrow> verification_result" where
  \<comment> \<open>the outer \<open>catch\<close> of \<open>verifyBEP20Transaction\<close>\<close>
  "bep20_catch msg = NotVerified (if msg = [] then ''Failed to verify BEP20 transaction'' else msg)"

fun strip_zeros :: "string \<Rightarrow> string" where
  \<comment> \<open>drops the zeros at the end of a fraction, keeping one digit\<close>
  "strip_zeros s =
     (let r = rev (dropWhile (\<lambda>c. c = CHR ''0'') (rev s)) in if r = [] then ''0'' else r)"

definition pad_left :: "nat \<Rightarrow> string \<Rightarrow> string" where
  "pad_left k s = replicate (k - length s) (CHR ''0'') @ s"

definition formatUnits :: "nat \<Rightarrow> nat \<Rightarrow> string" where
  \<comment> \<open>\<open>ethers.formatUnits\<close>: the decimal text of \<open>v / 10 ^ d\<close>\<close>
  "formatUnits v d =
     (if d = 0 then show_nat v
      else show_nat (v div 10 ^ d) @ ''.'' @ strip_zeros (pad_left d (show_nat (v mod 10 ^ d))))"

definition units_value :: "nat \<Rightarrow> nat \<Rightarrow> js_number" where
  \<comment> \<open>\<open>parseFloat(ethers.formatUnits(v, d))\<close>\<close>
  "units_value v d = of_nat v / 10 ^ d"

definition transfer_from_log :: "bsc_chain \<Rightarrow> string \<Rightarrow> int \<Rightarrow> evm_log \<Rightarrow> verification_result" where
  \<comment> \<open>the body of the loop at the log of the Transfer event; a missing topic is the
      TypeError of \<open>undefined.slice\<close>\<close>
  "transfer_from_log ch expectedToAddress confirmationCount l =
     (case log_topics l of
        t0 # t1 # rest \<Rightarrow>
          (case ethers_getAddress ch (''0x'' @ slice_last 40 t1) of
             Inl msg \<Rightarrow> bep20_catch msg
           | Inr fromAddress \<Rightarrow>
               (case rest of
                  [] \<Rightarrow> bep20_catch (type_error_message ''undefined'' ''slice'')
                | t2 # _ \<Rightarrow>
                    (case ethers_getAddress ch (''0x'' @ slice_last 40 t2) of
                       Inl msg \<Rightarrow> bep20_catch msg
                     | Inr toAddress \<Rightarrow>
                         if toLowerCase toAddress \<noteq> toLowerCase expectedToAddress
                         then NotVerified (''Recipient address mismatch. Expected: ''
                                           @ expectedToAddress @ '', Got: '' @ toAddress)
                         else
                           let tokenDecimals = (case token_decimals ch of Inl _ \<Rightarrow> 18 | Inr d \<Rightarrow> d);
                               transferAmount = formatUnits (log_data l) tokenDecimals;
                               actualAmount = units_value (log_data l) tokenDecimals
                           in if actualAmount < 1 / 100
                              then NotVerified (''Amount too small. Minimum: 0.01 USDT, Got: ''
                                                @ transferAmount @ '' USDT'')
                              else Verified actualAmount (Some fromAddress) confirmationCount)))
      | _ \<Rightarrow> bep20_catch (type_error_message ''undefined'' ''slice''))"

fun scan_logs :: "bsc_chain \<Rightarrow> string \<Rightarrow> int \<Rightarrow> evm_log list \<Rightarrow> verification_result" where
  "scan_logs ch expectedToAddress confirmationCount [] =
     NotVerified ''USDT Transfer event not found in transaction logs''"
| "scan_logs ch expectedToAddress confirmationCount (l # ls) =
     (if toLowerCase (log_address l) = toLowerCase USDT_BSC_CONTRACT
      then (case log_topics l of
              [] \<Rightarrow> bep20_catch (type_error_message ''undefined'' ''toLowerCase'')
            | t0 # _ \<Rightarrow>
                if toLowerCase t0 = toLowerCase transferEventSignature
                then transfer_from_log ch expectedToAddress confirmationCount l
                else scan_logs ch expectedToAddress confirmationCount ls)
      else scan_logs ch expectedToAddress confirmationCount ls)"

definition minConfirmations :: int where
  "minConfirmations = 3"

definition verifyBEP20Transaction ::
  "bsc_chain \<Rightarrow> string \<Rightarrow> string \<Rightarrow> js_number option \<Rightarrow> string option \<Rightarrow> verification_result" where
  "verifyBEP20Transaction ch txnHash expectedToAddress expectedAmount memo =
     (case BSC_RPC_URL ch of
        None \<Rightarrow> bep20_catch (type_error_message ''undefined'' ''substring'')
      | Some bscRpcUrl \<Rightarrow>
          (case getTransactionReceipt ch txnHash of
             Inl msg \<Rightarrow> bep20_catch msg
           | Inr None \<Rightarrow> NotVerified ''Transaction not found on blockchain''
           | Inr (Some receipt) \<Rightarrow>
               if r_status receipt \<noteq> Some 1
               then NotVerified ''Transaction failed on blockchain''
               else
                 (case getBlockNumber ch of
                    Inl msg \<Rightarrow> bep20_catch msg
                  | Inr currentBlock \<Rightarrow>
                      let confirmationCount = currentBlock - r_blockNumber receipt
                      in if confirmationCount < minConfirmations
                         then NotVerified (''Transaction needs at least '' @ show_int minConfirmations
                                           @ '' confirmations. Current: '' @ show_int confirmationCount)
                         else
                           (case getTransaction ch txnHash of
                              Inl msg \<Rightarrow> bep20_catch msg
                            | Inr tx \<Rightarrow>
                                if truthy_string memo \<and> tx = None
                                then bep20_catch (type_error_message ''null'' ''data'')
                                else scan_logs ch expectedToAddress confirmationCount (r_logs receipt)))))"

section \<open>Documents (models/CryptoPayment, models/Transaction, User, PaymentPlan)\<close>

datatype network = BEP20 | SOL

datatype payment_status = pending | processing | confirmed | failed | expired

fun network_name :: "network \<Rightarrow> string" where
  "network_name BEP20 = ''BEP20''"
| "network_name SOL = ''SOL''"

record crypto_payment =
  cp_id :: object_id
  cp_paymentId :: string
  cp_userId :: object_id
  cp_planId :: object_id
  cp_network :: network
  cp_token :: string
  cp_amount :: js_number
  cp_walletAddress :: string
  cp_memo :: string
  cp_transactionHash :: "string option"
  cp_status :: payment_status
  cp_expiresAt :: date
  cp_createdAt :: date
  cp_confirmedAt :: "date option"
  cp_verifiedAmount :: "js_number option"
  cp_verifiedFromAddress :: "string option"
  cp_confirmationCount :: int
  cp_errorMessage :: "string option"

definition isExpired :: "date \<Rightarrow> crypto_payment \<Rightarrow> bool" where
  \<comment> \<open>\<open>new Date() > this.expiresAt\<close>, the clock passed as \<open>now\<close>\<close>
  "isExpired now cp = (now > cp_expiresAt cp)"

definition confirm ::
  "date \<Rightarrow> js_number \<Rightarrow> string option \<Rightarrow> int \<Rightarrow> string \<Rightarrow> crypto_payment \<Rightarrow> crypto_payment" where
  "confirm now verifiedAmount verifiedFromAddress confirmationCount transactionHash cp =
     cp\<lparr>cp_status := confirmed,
        cp_confirmedAt := Some now,
        cp_verifiedAmount := Some verifiedAmount,
        cp_verifiedFromAddress := verifiedFromAddress,
        cp_confirmationCount := confirmationCount,
        cp_transactionHash := Some transactionHash\<rparr>"

definition fail :: "string \<Rightarrow> crypto_payment \<Rightarrow> crypto_payment" where
  "fail errorMessage cp = cp\<lparr>cp_status := failed, cp_errorMessage := Some errorMessage\<rparr>"

definition findByPaymentId :: "string \<Rightarrow> crypto_payment list \<Rightarrow> crypto_payment option" where
  "findByPaymentId pid ps = find (\<lambda>p. cp_paymentId p = pid) ps"

definition save_payment :: "crypto_payment \<Rightarrow> crypto_payment list \<Rightarrow> crypto_payment list" where
  \<comment> \<open>\<open>doc.save()\<close>: the stored document with this \<open>_id\<close> is replaced\<close>
  "save_payment cp ps = map (\<lambda>q. if cp_id q = cp_id cp then cp else q) ps"


record transaction =
  t_id :: object_id
  t_userId :: object_id
  t_stripePaymentIntentId :: "string option"
  t_stripeSessionId :: "string option"
  t_cryptoTransactionHash :: "string option"
  t_cryptoNetwork :: "string option"
  t_cryptoToken :: "string option"
  t_amount :: js_number
  t_currency :: string
  t_quotaAmount :: int
  t_status :: string
  t_paymentMethod :: string
  t_description :: string
  t_metadata :: "(string \<times> string) list"

definition upper_char :: "char \<Rightarrow> char" where
  "upper_char c =
     (case map_of (zip ''abcdefghijklmnopqrstuvwxyz'' ''ABCDEFGHIJKLMNOPQRSTUVWXYZ'') c of
        Some u \<Rightarrow> u
      | None \<Rightarrow> c)"

definition toUpperCase :: "string \<Rightarrow> string" where
  "toUpperCase s = map upper_char s"

definition schema_valid :: "transaction \<Rightarrow> bool" where
  \<comment> \<open>the validators of \<open>transactionSchema\<close>: \<open>min\<close>, \<open>enum\<close> and \<open>required\<close>\<close>
  "schema_valid t =
     (0 \<le> t_amount t \<and> 1 \<le> t_quotaAmount t
      \<and> t_currency t \<noteq> []
      \<and> t_status t \<in> set [''pending'', ''succeeded'', ''failed'', ''canceled'', ''refunded'']
      \<and> t_paymentMethod t \<in> set [''card'', ''apple_pay'', ''google_pay'', ''crypto'', ''other'']
      \<and> (case t_cryptoNetwork t of
            None \<Rightarrow> True
          | Some n \<Rightarrow> n \<in> set [''SOL'', ''USDT'', ''USDC''])
      \<and> t_description t \<noteq> [])"

definition unique_when_string ::
  "(transaction \<Rightarrow> string option) \<Rightarrow> transaction \<Rightarrow> transaction list \<Rightarrow> bool" where
  \<comment> \<open>a unique index with \<open>partialFilterExpression: { field: { $type: 'string' } }\<close>:
      only documents whose field is a string are indexed\<close>
  "unique_when_string field t ts =
     (case field t of
        None \<Rightarrow> True
      | Some v \<Rightarrow> Some v \<notin> set (map field ts))"

definition Transaction_create ::
  "object_id \<Rightarrow> transaction \<Rightarrow> transaction list \<Rightarrow> string + transaction \<times> transaction list" where
  \<comment> \<open>\<open>Transaction.create(doc)\<close>: validation, then the insert under the three unique
      indexes; \<open>Inl\<close> is the error thrown\<close>
  "Transaction_create new_id doc ts =
     (let t = doc\<lparr>t_id := new_id, t_currency := toUpperCase (t_currency doc)\<rparr>
      in if \<not> schema_valid t then Inl ''Transaction validation failed''
         else if unique_when_string t_stripePaymentIntentId t ts
                 \<and> unique_when_string t_stripeSessionId t ts
                 \<and> unique_when_string t_cryptoTransactionHash t ts
         then Inr (t, ts @ [t])
         else Inl ''E11000 duplicate key error'')"

record user =
  u_id :: object_id
  u_email :: string
  u_availableUsage :: int
  u_totalSpent :: "js_number option"

definition addQuota :: "int \<Rightarrow> object_id \<Rightarrow> user \<Rightarrow> user" where
  \<comment> \<open>Modelled from the spec: \<open>userSchema.methods.addQuota\<close> is not in the sources at
      hand. The spec has the settlement "increment the user's available credit balance by
      the computed quota"; the callers read \<open>user.availableUsage\<close> afterwards and rely on
      the call to save the user.\<close>
  "addQuota quota transactionId u = u\<lparr>u_availableUsage := u_availableUsage u + quota\<rparr>"

definition save_user :: "user \<Rightarrow> user list \<Rightarrow> user list" where
  "save_user u us = map (\<lambda>v. if u_id v = u_id u then u else v) us"

record payment_plan =
  pl_id :: object_id
  pl_name :: string
  pl_price :: js_number
  pl_quotaAmount :: int
  pl_isActive :: bool

definition findById :: "('a \<Rightarrow> object_id) \<Rightarrow> object_id \<Rightarrow> 'a list \<Rightarrow> 'a option" where
  "findById ident i xs = find (\<lambda>x. ident x = i) xs"

section \<open>The server and the world of one request\<close>

record server =
  cryptoPayments :: "crypto_payment list"
  transactions :: "transaction list"
  users :: "user list"
  paymentPlans :: "payment_plan list"
  next_object_id :: object_id
  cache :: rate_cache


text \<open>
  What is outside the server while \<open>/verify-crypto-transaction\<close> runs: the clock at the
  three places it is read, the BSC node, the answer of \<open>verifySOLTransaction\<close> (a function
  of the Solana chain alone), and the price feed with the fallback configuration.
\<close>

record world =
  now_isExpired :: date
  now_confirm :: date
  now_rate :: date
  bsc :: bsc_chain
  verifySOLTransaction :: "string \<Rightarrow> string \<Rightarrow> string option \<Rightarrow> verification_result"
  rates :: rate_env

record request =
  req_userId :: object_id
  req_paymentId :: string
  req_txnHash :: string

record payload =
  p_verified :: bool
  p_quotaAdded :: int
  p_newAvailableUsage :: int
  p_transactionId :: object_id
  p_amount :: js_number
  p_confirmationCount :: int
  p_alreadyProcessed :: bool

record response =
  res_status :: nat
  res_success :: bool
  res_error :: "string option"
  res_alreadyProcessed :: bool
  res_data :: "payload option"

definition error_response :: "nat \<Rightarrow> string \<Rightarrow> response" where
  \<comment> \<open>\<open>res.status(code).json({ success: false, error })\<close>\<close>
  "error_response code msg =
     \<lparr>res_status = code, res_success = False, res_error = Some msg,
      res_alreadyProcessed = False, res_data = None\<rparr>"

definition already_response :: "string \<Rightarrow> response" where
  \<comment> \<open>\<open>res.status(200).json({ success: false, error, alreadyProcessed: true })\<close>\<close>
  "already_response msg =
     \<lparr>res_status = 200, res_success = False, res_error = Some msg,
      res_alreadyProcessed = True, res_data = None\<rparr>"

definition success_response :: "payload \<Rightarrow> response" where
  \<comment> \<open>\<open>res.json({ success: true, data })\<close>\<close>
  "success_response d =
     \<lparr>res_status = 200, res_success = True, res_error = None,
      res_alreadyProcessed = False, res_data = Some d\<rparr>"

definition server_error :: response where
  \<comment> \<open>the handler's \<open>catch\<close>\<close>
  "server_error = error_response 500 ''Failed to verify crypto transaction''"

section \<open>POST /create-crypto-payment\<close>




section \<open>POST /verify-crypto-transaction\<close>

definition USD_PER_CREDIT :: js_number where
  "USD_PER_CREDIT = 45 / 100"

definition insufficient_message :: "js_number \<Rightarrow> string" where
  "insufficient_message usdAmount =
     ''Insufficient amount. Sent ~$'' @ toFixed2 usdAmount
     @ ''; minimum 1 credit requires $'' @ toFixed2 USD_PER_CREDIT @ ''.''"

definition chain_verify :: "world \<Rightarrow> crypto_payment \<Rightarrow> string \<Rightarrow> verification_result" where
  \<comment> \<open>the dispatch on \<open>cryptoPayment.network\<close>; the expected amount passed is \<open>null\<close>\<close>
  "chain_verify w cp txnHash =
     (case cp_network cp of
        BEP20 \<Rightarrow> verifyBEP20Transaction (bsc w) txnHash (cp_walletAddress cp) None (Some (cp_memo cp))
      | SOL \<Rightarrow> verifySOLTransaction w txnHash (cp_walletAddress cp) (Some (cp_memo cp)))"

definition default_verification_error :: "network \<Rightarrow> string" where
  "default_verification_error n =
     (case n of BEP20 \<Rightarrow> ''BEP20 verification failed'' | SOL \<Rightarrow> ''SOL verification failed'')"

definition get_rate :: "world \<Rightarrow> network \<Rightarrow> rate_cache \<Rightarrow> rate_outcome" where
  "get_rate w n c =
     (case n of
        SOL \<Rightarrow> getSolUsdRate (now_rate w) (rates w) c
      | BEP20 \<Rightarrow> getUsdtUsdRate (now_rate w) (rates w) c)"

definition new_transaction ::
  "request \<Rightarrow> crypto_payment \<Rightarrow> payment_plan \<Rightarrow> js_number \<Rightarrow> int \<Rightarrow> int \<Rightarrow> transaction" where
  \<comment> \<open>the document handed to \<open>Transaction.create\<close>\<close>
  "new_transaction rq cp plan usdAmountForTransaction quotaToAdd confirmationCount =
     \<lparr>t_id = 0,
      t_userId = req_userId rq,
      t_stripePaymentIntentId = None,
      t_stripeSessionId = None,
      t_cryptoTransactionHash = Some (req_txnHash rq),
      t_cryptoNetwork = Some (network_name (cp_network cp)),
      t_cryptoToken = Some (cp_token cp),
      t_amount = of_int (Math_round (usdAmountForTransaction * 100)),
      t_currency = ''usd'',
      t_quotaAmount = quotaToAdd,
      t_status = ''succeeded'',
      t_paymentMethod = ''crypto'',
      t_description = ''Purchase '' @ show_int quotaToAdd @ '' credits via ''
                      @ network_name (cp_network cp) @ '' (dynamic rate) - '' @ pl_name plan,
      t_metadata = [(''cryptoPaymentId'', show_nat (cp_id cp)),
                    (''planId'', show_nat (pl_id plan)),
                    (''planName'', pl_name plan),
                    (''confirmations'', show_int confirmationCount)]\<rparr>"

definition commit ::
  "request \<Rightarrow> crypto_payment \<Rightarrow> payment_plan \<Rightarrow> user \<Rightarrow> js_number \<Rightarrow> int \<Rightarrow> int \<Rightarrow> server
     \<Rightarrow> response \<times> server" where
  \<comment> \<open>from the \<open>existingTransaction\<close> guard to the final response\<close>
  "commit rq cp plan u usdAmountForTransaction quotaToAdd confirmationCount s =
     (case find (\<lambda>t. t_cryptoTransactionHash t = Some (req_txnHash rq)) (transactions s) of
        Some existingTransaction \<Rightarrow>
          (success_response
             \<lparr>p_verified = True,
              p_quotaAdded = t_quotaAmount existingTransaction,
              p_newAvailableUsage = u_availableUsage u,
              p_transactionId = t_id existingTransaction,
              p_amount = t_amount existingTransaction / 100,
              p_confirmationCount = confirmationCount,
              p_alreadyProcessed = True\<rparr>, s)
      | None \<Rightarrow>
          (case Transaction_create (next_object_id s)
                  (new_transaction rq cp plan usdAmountForTransaction quotaToAdd confirmationCount)
                  (transactions s) of
             Inl err \<Rightarrow> (server_error, s)
           | Inr (t, ts) \<Rightarrow>
               let u1 = u\<lparr>u_totalSpent :=
                            Some ((case u_totalSpent u of None \<Rightarrow> 0 | Some v \<Rightarrow> v)
                                  + usdAmountForTransaction)\<rparr>;
                   u2 = addQuota quotaToAdd (t_id t) u1
               in (success_response
                     \<lparr>p_verified = True,
                      p_quotaAdded = quotaToAdd,
                      p_newAvailableUsage = u_availableUsage u2,
                      p_transactionId = t_id t,
                      p_amount = usdAmountForTransaction,
                      p_confirmationCount = confirmationCount,
                      p_alreadyProcessed = False\<rparr>,
                   s\<lparr>transactions := ts, users := save_user u2 (users s),
                     next_object_id := next_object_id s + 1\<rparr>)))"

definition settle ::
  "world \<Rightarrow> request \<Rightarrow> crypto_payment \<Rightarrow> js_number \<Rightarrow> int \<Rightarrow> server \<Rightarrow> response \<times> server" where
  \<comment> \<open>after \<open>cryptoPayment.confirm(...)\<close> was saved: plan, user, conversion, commit\<close>
  "settle w rq cp verifiedAmount confirmationCount s =
     (case findById pl_id (cp_planId cp) (paymentPlans s) of
        None \<Rightarrow> (error_response 404 ''Payment plan not found'', s)
      | Some plan \<Rightarrow>
        (case findById u_id (req_userId rq) (users s) of
           None \<Rightarrow> (error_response 404 ''User not found'', s)
         | Some u \<Rightarrow>
           let outcome = get_rate w (cp_network cp) (cache s);
               s1 = s\<lparr>cache := ro_cache outcome\<rparr>
           in (case ro_rate outcome of
                 Inl err \<Rightarrow> (server_error, s1)
               | Inr rate \<Rightarrow>
                   let usdAmount = verifiedAmount * rate;
                       dynamicCredits = \<lfloor>usdAmount / USD_PER_CREDIT\<rfloor>
                   in if dynamicCredits \<le> 0
                      then (error_response 400 (insufficient_message usdAmount), s1)
                      else
                        let cp1 = cp\<lparr>cp_amount := toFixed2_value usdAmount\<rparr>;
                            s2 = s1\<lparr>cryptoPayments := save_payment cp1 (cryptoPayments s1)\<rparr>
                        in commit rq cp1 plan u usdAmount dynamicCredits confirmationCount s2)))"

definition submitted :: "request \<Rightarrow> crypto_payment \<Rightarrow> crypto_payment" where
  \<comment> \<open>\<open>cryptoPayment.status = 'processing'; cryptoPayment.transactionHash = txnHash\<close>\<close>
  "submitted rq cp = cp\<lparr>cp_status := processing, cp_transactionHash := Some (req_txnHash rq)\<rparr>"

definition submit_and_verify :: "world \<Rightarrow> request \<Rightarrow> crypto_payment \<Rightarrow> server \<Rightarrow> response \<times> server" where
  \<comment> \<open>after the guards: the status becomes \<open>processing\<close>, the chain is asked, and the
      payment is failed or confirmed\<close>
  "submit_and_verify w rq cp s =
     (let cp1 = submitted rq cp;
          s1 = s\<lparr>cryptoPayments := save_payment cp1 (cryptoPayments s)\<rparr>
      in (case chain_verify w cp1 (req_txnHash rq) of
            NotVerified err \<Rightarrow>
              let verificationError =
                    (if err = [] then default_verification_error (cp_network cp1) else err);
                  cp2 = fail verificationError cp1
              in (error_response 400 verificationError,
                  s1\<lparr>cryptoPayments := save_payment cp2 (cryptoPayments s1)\<rparr>)
          | Verified amount fromAddress confirmationCount \<Rightarrow>
              let cp2 = confirm (now_confirm w) amount fromAddress confirmationCount
                          (req_txnHash rq) cp1;
                  s2 = s1\<lparr>cryptoPayments := save_payment cp2 (cryptoPayments s1)\<rparr>
              in settle w rq cp2 amount confirmationCount s2))"

definition hash_used_elsewhere :: "string \<Rightarrow> crypto_payment \<Rightarrow> crypto_payment list \<Rightarrow> bool" where
  \<comment> \<open>\<open>CryptoPayment.findOne({ transactionHash, status: 'confirmed', _id: { $ne } })\<close>
      finds a document\<close>
  "hash_used_elsewhere txnHash cp ps =
     (find (\<lambda>q. cp_transactionHash q = Some txnHash \<and> cp_status q = confirmed
                  \<and> cp_id q \<noteq> cp_id cp) ps \<noteq> None)"

definition verifyCryptoTransaction :: "world \<Rightarrow> request \<Rightarrow> server \<Rightarrow> response \<times> server" where
  "verifyCryptoTransaction w rq s =
     (if req_paymentId rq = [] \<or> req_txnHash rq = []
      then (error_response 400 ''Missing required fields: paymentId, txnHash'', s)
      else
        (case findByPaymentId (req_paymentId rq) (cryptoPayments s) of
           None \<Rightarrow> (error_response 404 ''Payment not found'', s)
         | Some cp \<Rightarrow>
           if cp_userId cp \<noteq> req_userId rq then (error_response 403 ''Access denied'', s)
           else if cp_status cp = confirmed
           then (already_response ''This payment has already been confirmed'', s)
           else if hash_used_elsewhere (req_txnHash rq) cp (cryptoPayments s)
           then (already_response ''This transaction hash has already been used for another payment'', s)
           else if isExpired (now_isExpired w) cp
           then (error_response 400 ''This payment has expired. Please create a new payment.'',
                 s\<lparr>cryptoPayments := save_payment (cp\<lparr>cp_status := expired\<rparr>) (cryptoPayments s)\<rparr>)
           else submit_and_verify w rq cp s))"

abbreviation confirmed_payment ::
  "world \<Rightarrow> request \<Rightarrow> crypto_payment \<Rightarrow> js_number \<Rightarrow> string option \<Rightarrow> int \<Rightarrow> crypto_payment" where
  "confirmed_payment w rq cp a f c \<equiv> confirm (now_confirm w) a f c (req_txnHash rq) (submitted rq cp)"

abbreviation settled_payment ::
  "world \<Rightarrow> request \<Rightarrow> crypto_payment \<Rightarrow> js_number \<Rightarrow> string option \<Rightarrow> int \<Rightarrow> js_number
     \<Rightarrow> crypto_payment" where
  "settled_payment w rq cp a f c r \<equiv>
     (confirmed_payment w rq cp a f c)\<lparr>cp_amount := toFixed2_value (a * r)\<rparr>"

section \<open>Reachable servers\<close>



section \<open>A concrete deployment\<close>

definition starter_plan :: payment_plan where
  "starter_plan =
     \<lparr>pl_id = 3, pl_name = ''Starter'', pl_price = 12, pl_quotaAmount = 25, pl_isActive = True\<rparr>"

definition alice :: user where
  "alice = \<lparr>u_id = 7, u_email = ''alice@example.com'', u_availableUsage = 40, u_totalSpent = None\<rparr>"

definition bob :: user where
  "bob = \<lparr>u_id = 8, u_email = ''bob@example.com'', u_availableUsage = 40, u_totalSpent = None\<rparr>"

definition sol_wallet :: string where
  "sol_wallet = ''9xQeWvG816bUx9EPjHmaT23yvVM2ZWbrrpZb9PusVFin''"

definition usdt_wallet :: string where
  "usdt_wallet = ''0x1111111111111111111111111111111111111111''"

definition sol_payment :: crypto_payment where
  "sol_payment =
     \<lparr>cp_id = 100, cp_paymentId = ''crypto-1-sol'', cp_userId = 7, cp_planId = 3,
      cp_network = SOL, cp_token = ''SOL'', cp_amount = 12, cp_walletAddress = sol_wallet,
      cp_memo = ''TXN-7-1-sol'', cp_transactionHash = None, cp_status = pending,
      cp_expiresAt = 1800000, cp_createdAt = 0, cp_confirmedAt = None,
      cp_verifiedAmount = None, cp_verifiedFromAddress = None, cp_confirmationCount = 0,
      cp_errorMessage = None\<rparr>"

definition usdt_payment :: crypto_payment where
  "usdt_payment =
     \<lparr>cp_id = 101, cp_paymentId = ''crypto-2-usdt'', cp_userId = 7, cp_planId = 3,
      cp_network = BEP20, cp_token = ''USDT'', cp_amount = 12, cp_walletAddress = usdt_wallet,
      cp_memo = ''TXN-7-2-usdt'', cp_transactionHash = None, cp_status = pending,
      cp_expiresAt = 1800000, cp_createdAt = 0, cp_confirmedAt = None,
      cp_verifiedAmount = None, cp_verifiedFromAddress = None, cp_confirmationCount = 0,
      cp_errorMessage = None\<rparr>"

definition demo_server :: server where
  "demo_server =
     \<lparr>cryptoPayments = [sol_payment, usdt_payment], transactions = [],
      users = [alice, bob], paymentPlans = [starter_plan],
      next_object_id = 200, cache = empty_cache\<rparr>"

definition transfer_log :: evm_log where
  \<comment> \<open>a Transfer of 10 USDT (18 decimals) to \<open>usdt_wallet\<close>\<close>
  "transfer_log =
     \<lparr>log_address = ''0x55d398326f99059fF775485246999027B3197955'',
      log_topics =
        [''0xddf252ad1be2c89b69c2b068fc378daa952ba7f163c4a11628f55a4df523b3ef'',
         ''0x0000000000000000000000002222222222222222222222222222222222222222'',
         ''0x0000000000000000000000001111111111111111111111111111111111111111''],
      log_data = 10000000000000000000\<rparr>"

definition usdt_receipt :: receipt where
  "usdt_receipt = \<lparr>r_status = Some 1, r_blockNumber = 100, r_logs = [transfer_log]\<rparr>"

definition bsc_node :: "int \<Rightarrow> bsc_chain" where
  \<comment> \<open>a node whose head is at block \<open>head\<close>\<close>
  "bsc_node head =
     \<lparr>BSC_RPC_URL = Some ''https://bsc-dataseed.binance.org'',
      getTransactionReceipt = (\<lambda>h. if h = ''0xabc123'' then Inr (Some usdt_receipt) else Inr None),
      getBlockNumber = Inr head,
      getTransaction = (\<lambda>h. if h = ''0xabc123'' then Inr (Some \<lparr>tx_data = ''0xa9059cbb''\<rparr>) else Inr None),
      token_decimals = Inr 18,
      ethers_getAddress = Inr\<rparr>"

definition demo_rates :: rate_env where
  "demo_rates =
     \<lparr>SOL_USD_FALLBACK_RATE = None, USDT_USD_FALLBACK_RATE = None,
      parseFloat = (\<lambda>s. None),
      fetch_solana = FetchReturns (Some 20), fetch_tether = FetchReturns (Some 1)\<rparr>"

definition demo_world :: "int \<Rightarrow> js_number \<Rightarrow> world" where
  \<comment> \<open>the BSC head at \<open>head\<close>; the Solana signature \<open>SIG1\<close> pays \<open>sol\<close> SOL to \<open>sol_wallet\<close>\<close>
  "demo_world head sol =
     \<lparr>now_isExpired = 1000, now_confirm = 2000, now_rate = 3000,
      bsc = bsc_node head,
      verifySOLTransaction =
        (\<lambda>h a m. if h = ''SIG1'' \<and> a = sol_wallet
                 then Verified sol (Some ''SenderOfSol'') 40
                 else NotVerified ''Transaction not found on blockchain (no status)''),
      rates = demo_rates\<rparr>"

definition sol_request :: request where
  "sol_request = \<lparr>req_userId = 7, req_paymentId = ''crypto-1-sol'', req_txnHash = ''SIG1''\<rparr>"

definition usdt_request :: request where
  "usdt_request = \<lparr>req_userId = 7, req_paymentId = ''crypto-2-usdt'', req_txnHash = ''0xabc123''\<rparr>"

definition bob_payment :: crypto_payment where
  \<comment> \<open>a payment of another user, already confirmed with the signature \<open>SIG1\<close>\<close>
  "bob_payment =
     \<lparr>cp_id = 102, cp_paymentId = ''crypto-3-bob'', cp_userId = 8, cp_planId = 3,
      cp_network = SOL, cp_token = ''SOL'', cp_amount = 20, cp_walletAddress = sol_wallet,
      cp_memo = ''TXN-8-3-bob'', cp_transactionHash = Some ''SIG1'', cp_status = confirmed,
      cp_expiresAt = 1800000, cp_createdAt = 0, cp_confirmedAt = Some 500,
      cp_verifiedAmount = Some 1, cp_verifiedFromAddress = Some ''SenderOfSol'',
      cp_confirmationCount = 40, cp_errorMessage = None\<rparr>"

definition server_with_bob :: server where
  "server_with_bob = demo_server\<lparr>cryptoPayments := [sol_payment, usdt_payment, bob_payment]\<rparr>"





definition early_world :: world where
  \<comment> \<open>the Solana node does not know the signature yet\<close>
  "early_world =
     (demo_world 105 1)\<lparr>verifySOLTransaction :=
        (\<lambda>h a m. NotVerified ''Transaction not found on blockchain (no status)'')\<rparr>"

definition tether_down :: "string option \<Rightarrow> rate_env" where
  \<comment> \<open>the price feed is unreachable; \<open>USDT_USD_FALLBACK_RATE\<close> is as given\<close>
  "tether_down override =
     \<lparr>SOL_USD_FALLBACK_RATE = None, USDT_USD_FALLBACK_RATE = override,
      parseFloat = (\<lambda>s. if s = ''0.98'' then Some (98 / 100) else None),
      fetch_solana = FetchThrows ''timeout of 4000ms exceeded'',
      fetch_tether = FetchThrows ''timeout of 4000ms exceeded''\<rparr>"

definition warm_cache :: rate_cache where
  "warm_cache = empty_cache\<lparr>usdtUsd := \<lparr>ce_value = Some (999 / 1000), ce_expiresAt = 5000\<rparr>\<rparr>"







section \<open>Auxiliary facts\<close>

subsection \<open>Documents and collections\<close>

lemma find_after_save:
  "findByPaymentId pid ps = Some cp \<Longrightarrow> cp_id cp' = cp_id cp \<Longrightarrow> cp_paymentId cp' = pid
   \<Longrightarrow> findByPaymentId pid (save_payment cp' ps) = Some cp'"
  unfolding findByPaymentId_def save_payment_def
  by (induction ps) (auto split: if_splits)

lemma findByPaymentId_paymentId: "findByPaymentId pid ps = Some cp \<Longrightarrow> cp_paymentId cp = pid"
  unfolding findByPaymentId_def by (induction ps) (auto split: if_splits)

lemma bep20_never_valid:
  "cp_network cp = BEP20 \<Longrightarrow>
   Transaction_create n (new_transaction rq cp plan usd q c) ts = Inl ''Transaction validation failed''"
  by (simp add: Transaction_create_def new_transaction_def schema_valid_def Let_def)

lemma Math_round_nonneg: "0 \<le> x \<Longrightarrow> 0 \<le> Math_round x"
  by (simp add: Math_round_def)

lemma credits_positive_usd: "1 \<le> \<lfloor>usd / USD_PER_CREDIT\<rfloor> \<Longrightarrow> 0 \<le> usd"
proof -
  assume "1 \<le> \<lfloor>usd / USD_PER_CREDIT\<rfloor>"
  then have "1 \<le> usd / USD_PER_CREDIT" by linarith
  then show ?thesis by (simp add: USD_PER_CREDIT_def)
qed

lemma sol_create_ok:
  assumes "cp_network cp = SOL" and "1 \<le> q" and "0 \<le> usd"
      and "find (\<lambda>t. t_cryptoTransactionHash t = Some (req_txnHash rq)) ts = None"
  shows "Transaction_create n (new_transaction rq cp plan usd q c) ts =
           Inr ((new_transaction rq cp plan usd q c)\<lparr>t_id := n, t_currency := ''USD''\<rparr>,
                ts @ [(new_transaction rq cp plan usd q c)\<lparr>t_id := n, t_currency := ''USD''\<rparr>])"
proof -
  have "Some (req_txnHash rq) \<notin> set (map t_cryptoTransactionHash ts)"
    using assms(4) by (auto simp: find_None_iff)
  moreover have "toUpperCase ''usd'' = ''USD''"
    by (simp add: toUpperCase_def upper_char_def)
  ultimately show ?thesis
    using assms(1-3)
    by (simp add: Transaction_create_def new_transaction_def schema_valid_def Let_def
          unique_when_string_def Math_round_nonneg)
qed

subsection \<open>The handler, step by step\<close>

lemma chain_verify_cong:
  "chain_verify w (submitted rq cp) h = chain_verify w cp h"
  by (simp add: chain_verify_def submitted_def split: network.split)

lemma guards_pass:
  assumes "req_paymentId rq \<noteq> []" and "req_txnHash rq \<noteq> []"
      and "findByPaymentId (req_paymentId rq) (cryptoPayments s) = Some cp"
      and "cp_userId cp = req_userId rq" and "cp_status cp \<noteq> confirmed"
      and "\<not> hash_used_elsewhere (req_txnHash rq) cp (cryptoPayments s)"
      and "\<not> isExpired (now_isExpired w) cp"
  shows "verifyCryptoTransaction w rq s = submit_and_verify w rq cp s"
  using assms by (simp add: verifyCryptoTransaction_def)

lemma submit_not_verified:
  assumes "chain_verify w cp (req_txnHash rq) = NotVerified err" and "err \<noteq> []"
  shows "submit_and_verify w rq cp s =
           (error_response 400 err,
            s\<lparr>cryptoPayments := save_payment (fail err (submitted rq cp))
                                  (save_payment (submitted rq cp) (cryptoPayments s))\<rparr>)"
  using assms by (simp add: submit_and_verify_def Let_def chain_verify_cong)

lemma submit_verified:
  assumes "chain_verify w cp (req_txnHash rq) = Verified a f c"
  shows "submit_and_verify w rq cp s =
           settle w rq (confirm (now_confirm w) a f c (req_txnHash rq) (submitted rq cp)) a c
             (s\<lparr>cryptoPayments :=
                  save_payment (confirm (now_confirm w) a f c (req_txnHash rq) (submitted rq cp))
                    (save_payment (submitted rq cp) (cryptoPayments s))\<rparr>)"
  using assms by (simp add: submit_and_verify_def Let_def chain_verify_cong)

lemma settle_converts:
  assumes "findById pl_id (cp_planId cp) (paymentPlans s) = Some plan"
      and "findById u_id (req_userId rq) (users s) = Some u"
      and "ro_rate (get_rate w (cp_network cp) (cache s)) = Inr r"
      and "1 \<le> \<lfloor>a * r / USD_PER_CREDIT\<rfloor>"
  shows "settle w rq cp a c s =
           commit rq (cp\<lparr>cp_amount := toFixed2_value (a * r)\<rparr>) plan u (a * r)
             \<lfloor>a * r / USD_PER_CREDIT\<rfloor> c
             (s\<lparr>cache := ro_cache (get_rate w (cp_network cp) (cache s)),
                cryptoPayments := save_payment (cp\<lparr>cp_amount := toFixed2_value (a * r)\<rparr>)
                                    (cryptoPayments s)\<rparr>)"
  using assms by (simp add: settle_def Let_def)

lemma settle_insufficient:
  assumes "findById pl_id (cp_planId cp) (paymentPlans s) = Some plan"
      and "findById u_id (req_userId rq) (users s) = Some u"
      and "ro_rate (get_rate w (cp_network cp) (cache s)) = Inr r"
      and "\<lfloor>a * r / USD_PER_CREDIT\<rfloor> \<le> 0"
  shows "settle w rq cp a c s =
           (error_response 400 (insufficient_message (a * r)),
            s\<lparr>cache := ro_cache (get_rate w (cp_network cp) (cache s))\<rparr>)"
  using assms by (simp add: settle_def Let_def)


lemma commit_sol:
  assumes "cp_network cp = SOL" and "1 \<le> q" and "0 \<le> usd"
      and "find (\<lambda>t. t_cryptoTransactionHash t = Some (req_txnHash rq)) (transactions s) = None"
  shows "commit rq cp plan u usd q c s =
           (success_response
              \<lparr>p_verified = True, p_quotaAdded = q,
               p_newAvailableUsage = u_availableUsage u + q,
               p_transactionId = next_object_id s,
               p_amount = usd, p_confirmationCount = c,
               p_alreadyProcessed = False\<rparr>,
            s\<lparr>transactions := transactions s
                  @ [(new_transaction rq cp plan usd q c)\<lparr>t_id := next_object_id s, t_currency := ''USD''\<rparr>],
              users := save_user (u\<lparr>u_totalSpent := Some ((case u_totalSpent u of None \<Rightarrow> 0 | Some v \<Rightarrow> v) + usd),
                                   u_availableUsage := u_availableUsage u + q\<rparr>) (users s),
              next_object_id := next_object_id s + 1\<rparr>)"
  using assms by (simp add: commit_def sol_create_ok Let_def addQuota_def)

lemma commit_bep20:
  assumes "cp_network cp = BEP20"
      and "find (\<lambda>t. t_cryptoTransactionHash t = Some (req_txnHash rq)) (transactions s) = None"
  shows "commit rq cp plan u usd q c s = (server_error, s)"
  using assms by (simp add: commit_def bep20_never_valid)

lemma commit_payments: "cryptoPayments (snd (commit rq cp plan u usd q c s)) = cryptoPayments s"
  by (simp add: commit_def Let_def split: option.splits sum.splits prod.splits)

lemma reaches_commit:
  assumes pid: "req_paymentId rq \<noteq> []" and h: "req_txnHash rq \<noteq> []"
      and found: "findByPaymentId (req_paymentId rq) (cryptoPayments s) = Some cp"
      and owner: "cp_userId cp = req_userId rq"
      and open_: "cp_status cp \<noteq> confirmed"
      and fresh: "\<not> hash_used_elsewhere (req_txnHash rq) cp (cryptoPayments s)"
      and in_time: "\<not> isExpired (now_isExpired w) cp"
      and cv: "chain_verify w cp (req_txnHash rq) = Verified a f c"
      and plan: "findById pl_id (cp_planId cp) (paymentPlans s) = Some plan"
      and user: "findById u_id (req_userId rq) (users s) = Some u"
      and rate: "ro_rate (get_rate w (cp_network cp) (cache s)) = Inr r"
      and credits: "1 \<le> \<lfloor>a * r / USD_PER_CREDIT\<rfloor>"
  shows "\<exists>s3. verifyCryptoTransaction w rq s =
                commit rq (settled_payment w rq cp a f c r) plan u (a * r) \<lfloor>a * r / USD_PER_CREDIT\<rfloor> c s3
              \<and> transactions s3 = transactions s \<and> users s3 = users s
              \<and> next_object_id s3 = next_object_id s
              \<and> findByPaymentId (req_paymentId rq) (cryptoPayments s3) = Some (settled_payment w rq cp a f c r)"
proof -
  let ?cp1 = "submitted rq cp"
  let ?cp2 = "confirmed_payment w rq cp a f c"
  let ?cp3 = "settled_payment w rq cp a f c r"
  let ?q = "\<lfloor>a * r / USD_PER_CREDIT\<rfloor>"
  let ?s2 = "s\<lparr>cryptoPayments := save_payment ?cp2 (save_payment ?cp1 (cryptoPayments s))\<rparr>"
  let ?s3 = "?s2\<lparr>cache := ro_cache (get_rate w (cp_network ?cp2) (cache ?s2)),
                cryptoPayments := save_payment ?cp3 (cryptoPayments ?s2)\<rparr>"
  have step1: "verifyCryptoTransaction w rq s = settle w rq ?cp2 a c ?s2"
    using guards_pass[OF pid h found owner open_ fresh in_time] submit_verified[OF cv] by simp
  have rate2: "ro_rate (get_rate w (cp_network ?cp2) (cache ?s2)) = Inr r"
    using rate by (simp add: confirm_def submitted_def)
  have plan2: "findById pl_id (cp_planId ?cp2) (paymentPlans ?s2) = Some plan"
    using plan by (simp add: confirm_def submitted_def)
  have user2: "findById u_id (req_userId rq) (users ?s2) = Some u" using user by simp
  have step2: "settle w rq ?cp2 a c ?s2 = commit rq ?cp3 plan u (a * r) ?q c ?s3"
    using settle_converts[OF plan2 user2 rate2 credits] .
  have pid1: "cp_paymentId cp = req_paymentId rq" using found by (rule findByPaymentId_paymentId)
  have f1: "findByPaymentId (req_paymentId rq) (save_payment ?cp1 (cryptoPayments s)) = Some ?cp1"
    using find_after_save[OF found, of ?cp1] pid1 by (simp add: submitted_def)
  have f2: "findByPaymentId (req_paymentId rq) (save_payment ?cp2 (save_payment ?cp1 (cryptoPayments s))) = Some ?cp2"
    using find_after_save[OF f1, of ?cp2] pid1 by (simp add: submitted_def confirm_def)
  have f3: "findByPaymentId (req_paymentId rq) (save_payment ?cp3 (save_payment ?cp2 (save_payment ?cp1 (cryptoPayments s)))) = Some ?cp3"
    using find_after_save[OF f2, of ?cp3] pid1 by (simp add: submitted_def confirm_def)
  have "verifyCryptoTransaction w rq s = commit rq ?cp3 plan u (a * r) ?q c ?s3"
    using step1 step2 by simp
  moreover have "transactions ?s3 = transactions s" "users ?s3 = users s"
    "next_object_id ?s3 = next_object_id s" by simp_all
  moreover have "findByPaymentId (req_paymentId rq) (cryptoPayments ?s3) = Some ?cp3"
    using f3 by simp
  ultimately show ?thesis by blast
qed

subsection \<open>The concrete deployment\<close>

lemma demo_find_sol: "findByPaymentId ''crypto-1-sol'' (cryptoPayments demo_server) = Some sol_payment"
  by (simp add: findByPaymentId_def demo_server_def sol_payment_def)

lemma demo_find_usdt: "findByPaymentId ''crypto-2-usdt'' (cryptoPayments demo_server) = Some usdt_payment"
  by (simp add: findByPaymentId_def demo_server_def sol_payment_def usdt_payment_def)

lemma demo_fresh_sol: "\<not> hash_used_elsewhere h sol_payment (cryptoPayments demo_server)"
  by (simp add: hash_used_elsewhere_def demo_server_def sol_payment_def usdt_payment_def)

lemma demo_fresh_usdt: "\<not> hash_used_elsewhere h usdt_payment (cryptoPayments demo_server)"
  by (simp add: hash_used_elsewhere_def demo_server_def sol_payment_def usdt_payment_def)

lemma demo_plan: "findById pl_id 3 (paymentPlans demo_server) = Some starter_plan"
  by (simp add: findById_def demo_server_def starter_plan_def)

lemma demo_user: "findById u_id 7 (users demo_server) = Some alice"
  by (simp add: findById_def demo_server_def alice_def)

lemma demo_sol_rate:
  "getSolUsdRate t demo_rates empty_cache =
     \<lparr>ro_rate = Inr 20,
      ro_cache = empty_cache\<lparr>solUsd := \<lparr>ce_value = Some 20, ce_expiresAt = t + 60000\<rparr>\<rparr>,
      ro_network_calls = 1\<rparr>"
  by (simp add: getSolUsdRate_def demo_rates_def empty_cache_def truthy_number_def valid_rate_def
        ONE_MINUTE_MS_def)

lemma demo_usdt_rate:
  "getUsdtUsdRate t demo_rates empty_cache =
     \<lparr>ro_rate = Inr 1,
      ro_cache = empty_cache\<lparr>usdtUsd := \<lparr>ce_value = Some 1, ce_expiresAt = t + 60000\<rparr>\<rparr>,
      ro_network_calls = 1\<rparr>"
  by (simp add: getUsdtUsdRate_def demo_rates_def empty_cache_def truthy_number_def valid_rate_def
        ONE_MINUTE_MS_def)

lemma lower_wallet: "toLowerCase usdt_wallet = usdt_wallet"
  by (simp add: toLowerCase_def lower_char_def usdt_wallet_def)

lemma demo_transfer:
  "transfer_from_log (bsc_node head) usdt_wallet n transfer_log =
     Verified 10 (Some ''0x2222222222222222222222222222222222222222'') n"
  using lower_wallet
  by (simp add: transfer_from_log_def transfer_log_def bsc_node_def slice_last_def
        units_value_def usdt_wallet_def)

lemma demo_scan:
  "scan_logs (bsc_node head) usdt_wallet n [transfer_log] =
     Verified 10 (Some ''0x2222222222222222222222222222222222222222'') n"
proof -
  have a: "toLowerCase (log_address transfer_log) = toLowerCase USDT_BSC_CONTRACT"
    by (simp add: transfer_log_def USDT_BSC_CONTRACT_def)
  have b: "log_topics transfer_log = [transferEventSignature,
         ''0x0000000000000000000000002222222222222222222222222222222222222222'',
         ''0x0000000000000000000000001111111111111111111111111111111111111111'']"
    by (simp add: transfer_log_def transferEventSignature_def)
  show ?thesis using a b demo_transfer by simp
qed

lemma demo_bep20_verified:
  "3 \<le> head - 100 \<Longrightarrow>
   verifyBEP20Transaction (bsc_node head) ''0xabc123'' usdt_wallet None (Some m) =
     Verified 10 (Some ''0x2222222222222222222222222222222222222222'') (head - 100)"
proof -
  assume d: "3 \<le> head - 100"
  have "scan_logs (bsc_node head) usdt_wallet (head - 100) (r_logs usdt_receipt) =
     Verified 10 (Some ''0x2222222222222222222222222222222222222222'') (head - 100)"
    using demo_scan by (simp add: usdt_receipt_def)
  moreover have "BSC_RPC_URL (bsc_node head) = Some ''https://bsc-dataseed.binance.org''"
    and "getTransactionReceipt (bsc_node head) ''0xabc123'' = Inr (Some usdt_receipt)"
    and "getBlockNumber (bsc_node head) = Inr head"
    and "getTransaction (bsc_node head) ''0xabc123'' = Inr (Some \<lparr>tx_data = ''0xa9059cbb''\<rparr>)"
    by (simp_all add: bsc_node_def)
  moreover have "r_status usdt_receipt = Some 1" "r_blockNumber usdt_receipt = 100"
    by (simp_all add: usdt_receipt_def)
  ultimately show ?thesis using d
    by (simp add: verifyBEP20Transaction_def minConfirmations_def Let_def)
qed

lemma valid_rate_fails: "fetch_fails f \<Longrightarrow> \<exists>err. valid_rate f m = Inl err"
  by (auto simp: fetch_fails_def valid_rate_def split: fetch_result.splits option.splits)

subsection \<open>Paths through the handler\<close>

lemma demo_world_fields:
  "now_isExpired (demo_world head sol) = 1000" "now_confirm (demo_world head sol) = 2000"
  "now_rate (demo_world head sol) = 3000" "bsc (demo_world head sol) = bsc_node head"
  "rates (demo_world head sol) = demo_rates"
  "verifySOLTransaction (demo_world head sol) ''SIG1'' sol_wallet m = Verified sol (Some ''SenderOfSol'') 40"
  by (simp_all add: demo_world_def)

lemma demo_requests:
  "req_paymentId sol_request = ''crypto-1-sol''" "req_txnHash sol_request = ''SIG1''"
  "req_userId sol_request = 7"
  "req_paymentId usdt_request = ''crypto-2-usdt''" "req_txnHash usdt_request = ''0xabc123''"
  "req_userId usdt_request = 7"
  by (simp_all add: sol_request_def usdt_request_def)

lemma demo_payments:
  "cp_userId sol_payment = 7" "cp_status sol_payment = pending" "cp_expiresAt sol_payment = 1800000"
  "cp_network sol_payment = SOL" "cp_planId sol_payment = 3" "cp_walletAddress sol_payment = sol_wallet"
  "cp_userId usdt_payment = 7" "cp_status usdt_payment = pending" "cp_expiresAt usdt_payment = 1800000"
  "cp_network usdt_payment = BEP20" "cp_planId usdt_payment = 3" "cp_walletAddress usdt_payment = usdt_wallet"
  by (simp_all add: sol_payment_def usdt_payment_def)

lemma demo_server_fields:
  "transactions demo_server = []" "users demo_server = [alice, bob]" "cache demo_server = empty_cache"
  "next_object_id demo_server = 200"
  by (simp_all add: demo_server_def)

lemma hash_used_elsewhere_iff:
  "hash_used_elsewhere h cp ps \<longleftrightarrow>
     (\<exists>q \<in> set ps. cp_transactionHash q = Some h \<and> cp_status q = confirmed \<and> cp_id q \<noteq> cp_id cp)"
  by (auto simp: hash_used_elsewhere_def find_None_iff)

lemma hash_used_elsewhere_save:
  "cp_id cp' = cp_id cp \<Longrightarrow>
   hash_used_elsewhere h cp' (save_payment cp' ps) = hash_used_elsewhere h cp ps"
  by (auto simp: hash_used_elsewhere_iff save_payment_def)

lemma sol_settlement:
  assumes pid: "req_paymentId rq \<noteq> []" and h: "req_txnHash rq \<noteq> []"
      and found: "findByPaymentId (req_paymentId rq) (cryptoPayments s) = Some cp"
      and owner: "cp_userId cp = req_userId rq"
      and open_: "cp_status cp \<noteq> confirmed"
      and fresh: "\<not> hash_used_elsewhere (req_txnHash rq) cp (cryptoPayments s)"
      and in_time: "\<not> isExpired (now_isExpired w) cp"
      and net: "cp_network cp = SOL"
      and chain: "verifySOLTransaction w (req_txnHash rq) (cp_walletAddress cp) (Some (cp_memo cp))
                    = Verified a f c"
      and plan: "findById pl_id (cp_planId cp) (paymentPlans s) = Some plan"
      and user: "findById u_id (req_userId rq) (users s) = Some u"
      and rate: "ro_rate (getSolUsdRate (now_rate w) (rates w) (cache s)) = Inr r"
      and credits: "1 \<le> \<lfloor>a * r / USD_PER_CREDIT\<rfloor>"
      and unsettled: "find (\<lambda>t. t_cryptoTransactionHash t = Some (req_txnHash rq)) (transactions s) = None"
  shows "fst (verifyCryptoTransaction w rq s) =
           success_response
             \<lparr>p_verified = True, p_quotaAdded = \<lfloor>a * r / USD_PER_CREDIT\<rfloor>,
              p_newAvailableUsage = u_availableUsage u + \<lfloor>a * r / USD_PER_CREDIT\<rfloor>,
              p_transactionId = next_object_id s,
              p_amount = a * r, p_confirmationCount = c,
              p_alreadyProcessed = False\<rparr>"
    and "findByPaymentId (req_paymentId rq) (cryptoPayments (snd (verifyCryptoTransaction w rq s))) =
           Some (settled_payment w rq cp a f c r)"
    and "transactions (snd (verifyCryptoTransaction w rq s)) =
           transactions s @ [(new_transaction rq (settled_payment w rq cp a f c r) plan (a * r)
                                \<lfloor>a * r / USD_PER_CREDIT\<rfloor> c)
                             \<lparr>t_id := next_object_id s, t_currency := ''USD''\<rparr>]"
    and "users (snd (verifyCryptoTransaction w rq s)) =
           save_user (u\<lparr>u_totalSpent := Some ((case u_totalSpent u of None \<Rightarrow> 0 | Some v \<Rightarrow> v) + a * r),
                         u_availableUsage := u_availableUsage u + \<lfloor>a * r / USD_PER_CREDIT\<rfloor>\<rparr>) (users s)"
proof -
  let ?cp3 = "settled_payment w rq cp a f c r"
  let ?q = "\<lfloor>a * r / USD_PER_CREDIT\<rfloor>"
  have cv: "chain_verify w cp (req_txnHash rq) = Verified a f c"
    using net chain by (simp add: chain_verify_def)
  have rate': "ro_rate (get_rate w (cp_network cp) (cache s)) = Inr r"
    using rate net by (simp add: get_rate_def)
  from reaches_commit [OF pid h found owner open_ fresh in_time cv plan user rate' credits]
  obtain s3 where all: "verifyCryptoTransaction w rq s = commit rq ?cp3 plan u (a * r) ?q c s3"
    and tx: "transactions s3 = transactions s" and us: "users s3 = users s"
    and nx: "next_object_id s3 = next_object_id s"
    and f3: "findByPaymentId (req_paymentId rq) (cryptoPayments s3) = Some ?cp3"
    by blast
  have net3: "cp_network ?cp3 = SOL" using net by (simp add: confirm_def submitted_def)
  have uns3: "find (\<lambda>t. t_cryptoTransactionHash t = Some (req_txnHash rq)) (transactions s3) = None"
    using unsettled tx by simp
  have usd: "0 \<le> a * r" using credits by (rule credits_positive_usd)
  note step3 = commit_sol [OF net3 credits usd uns3, of plan u c]
  show "fst (verifyCryptoTransaction w rq s) =
           success_response
             \<lparr>p_verified = True, p_quotaAdded = ?q,
              p_newAvailableUsage = u_availableUsage u + ?q,
              p_transactionId = next_object_id s,
              p_amount = a * r, p_confirmationCount = c,
              p_alreadyProcessed = False\<rparr>"
    unfolding all step3 by (simp add: nx)
  show "findByPaymentId (req_paymentId rq) (cryptoPayments (snd (verifyCryptoTransaction w rq s))) = Some ?cp3"
    unfolding all commit_payments by (rule f3)
  show "transactions (snd (verifyCryptoTransaction w rq s)) =
           transactions s @ [(new_transaction rq ?cp3 plan (a * r) ?q c)
                             \<lparr>t_id := next_object_id s, t_currency := ''USD''\<rparr>]"
    unfolding all step3 by (simp add: tx nx)
  show "users (snd (verifyCryptoTransaction w rq s)) =
           save_user (u\<lparr>u_totalSpent := Some ((case u_totalSpent u of None \<Rightarrow> 0 | Some v \<Rightarrow> v) + a * r),
                         u_availableUsage := u_availableUsage u + ?q\<rparr>) (users s)"
    unfolding all step3 by (simp add: us)
qed

lemma bob_find_sol:
  "findByPaymentId ''crypto-1-sol'' (cryptoPayments server_with_bob) = Some sol_payment"
  by (simp add: findByPaymentId_def server_with_bob_def sol_payment_def)



lemma failed_verification:
  assumes pid: "req_paymentId rq \<noteq> []" and h: "req_txnHash rq \<noteq> []"
      and found: "findByPaymentId (req_paymentId rq) (cryptoPayments s) = Some cp"
      and owner: "cp_userId cp = req_userId rq"
      and open_: "cp_status cp \<noteq> confirmed"
      and fresh: "\<not> hash_used_elsewhere (req_txnHash rq) cp (cryptoPayments s)"
      and in_time: "\<not> isExpired (now_isExpired w) cp"
      and cv: "chain_verify w cp (req_txnHash rq) = NotVerified err" and msg: "err \<noteq> []"
  shows "verifyCryptoTransaction w rq s =
           (error_response 400 err,
            s\<lparr>cryptoPayments := save_payment (fail err (submitted rq cp))
                                  (save_payment (submitted rq cp) (cryptoPayments s))\<rparr>)"
  using guards_pass [OF pid h found owner open_ fresh in_time] submit_not_verified [OF cv msg]
  by simp

lemma failed_payment_found:
  assumes found: "findByPaymentId (req_paymentId rq) ps = Some cp"
  shows "findByPaymentId (req_paymentId rq)
           (save_payment (fail err (submitted rq cp)) (save_payment (submitted rq cp) ps))
         = Some (fail err (submitted rq cp))"
proof -
  have pid1: "cp_paymentId cp = req_paymentId rq" using found by (rule findByPaymentId_paymentId)
  have f1: "findByPaymentId (req_paymentId rq) (save_payment (submitted rq cp) ps) = Some (submitted rq cp)"
    using find_after_save [OF found, of "submitted rq cp"] pid1 by (simp add: submitted_def)
  show ?thesis
    using find_after_save [OF f1, of "fail err (submitted rq cp)"] pid1
    by (simp add: submitted_def fail_def)
qed

lemma failed_payment_fresh:
  "hash_used_elsewhere h (fail err (submitted rq cp))
     (save_payment (fail err (submitted rq cp)) (save_payment (submitted rq cp) ps))
   = hash_used_elsewhere h cp ps"
proof -
  have "hash_used_elsewhere h (fail err (submitted rq cp))
          (save_payment (fail err (submitted rq cp)) (save_payment (submitted rq cp) ps))
        = hash_used_elsewhere h (submitted rq cp) (save_payment (submitted rq cp) ps)"
    by (rule hash_used_elsewhere_save) (simp add: fail_def)
  also have "\<dots> = hash_used_elsewhere h cp ps"
    by (rule hash_used_elsewhere_save) (simp add: submitted_def)
  finally show ?thesis .
qed

lemma shallow_receipt:
  assumes "BSC_RPC_URL ch = Some url"
      and "getTransactionReceipt ch h = Inr (Some r)"
      and "r_status r = Some 1"
      and "getBlockNumber ch = Inr cur"
      and "cur - r_blockNumber r < 3"
  shows "verifyBEP20Transaction ch h addr amt memo =
           NotVerified (''Transaction needs at least '' @ show_int 3 @ '' confirmations. Current: ''
                        @ show_int (cur - r_blockNumber r))"
  using assms by (simp add: verifyBEP20Transaction_def minConfirmations_def Let_def)

lemma demo_bep20_shallow:
  "verifyBEP20Transaction (bsc_node 102) ''0xabc123'' usdt_wallet None (Some m)
     = NotVerified ''Transaction needs at least 3 confirmations. Current: 2''"
proof -
  have "verifyBEP20Transaction (bsc_node 102) ''0xabc123'' usdt_wallet None (Some m)
          = NotVerified (''Transaction needs at least '' @ show_int 3 @ '' confirmations. Current: ''
                         @ show_int (102 - r_blockNumber usdt_receipt))"
    by (rule shallow_receipt [where url = "''https://bsc-dataseed.binance.org''"])
       (simp_all add: bsc_node_def usdt_receipt_def)
  then show ?thesis
    by (simp add: usdt_receipt_def show_int_def show_nat.simps digit_char_def)
qed

lemma world_fields_early:
  "now_isExpired early_world = 1000"
  "verifySOLTransaction early_world h a m = NotVerified ''Transaction not found on blockchain (no status)''"
  by (simp_all add: early_world_def demo_world_def)




lemma settle_shape:
  "(transactions (snd (settle w rq cp a c s)) = transactions s
      \<and> users (snd (settle w rq cp a c s)) = users s
      \<and> cryptoPayments (snd (settle w rq cp a c s)) = cryptoPayments s
      \<and> \<not> res_success (fst (settle w rq cp a c s)))
   \<or> (\<exists>plan u r. findById pl_id (cp_planId cp) (paymentPlans s) = Some plan
          \<and> findById u_id (req_userId rq) (users s) = Some u
          \<and> ro_rate (get_rate w (cp_network cp) (cache s)) = Inr r
          \<and> 1 \<le> \<lfloor>a * r / USD_PER_CREDIT\<rfloor>)"
proof (cases "findById pl_id (cp_planId cp) (paymentPlans s)")
  case None
  then show ?thesis by (simp add: settle_def error_response_def)
next
  case plan: (Some plan)
  show ?thesis
  proof (cases "findById u_id (req_userId rq) (users s)")
    case None
    then show ?thesis using plan by (simp add: settle_def error_response_def)
  next
    case user: (Some u)
    show ?thesis
    proof (cases "ro_rate (get_rate w (cp_network cp) (cache s))")
      case (Inl err)
      then show ?thesis using plan user
        by (simp add: settle_def Let_def error_response_def server_error_def)
    next
      case rate: (Inr r)
      show ?thesis
      proof (cases "1 \<le> \<lfloor>a * r / USD_PER_CREDIT\<rfloor>")
        case True
        then show ?thesis using plan user rate by blast
      next
        case False
        then have "\<lfloor>a * r / USD_PER_CREDIT\<rfloor> \<le> 0" by simp
        then show ?thesis
          using settle_insufficient [OF plan user rate] by (simp add: error_response_def)
      qed
    qed
  qed
qed

lemma verify_shape:
  "(transactions (snd (verifyCryptoTransaction w rq s)) = transactions s
      \<and> users (snd (verifyCryptoTransaction w rq s)) = users s
      \<and> \<not> res_success (fst (verifyCryptoTransaction w rq s)))
   \<or> (\<exists>cp a f c plan u r.
          req_paymentId rq \<noteq> [] \<and> req_txnHash rq \<noteq> []
          \<and> findByPaymentId (req_paymentId rq) (cryptoPayments s) = Some cp
          \<and> cp_userId cp = req_userId rq \<and> cp_status cp \<noteq> confirmed
          \<and> \<not> hash_used_elsewhere (req_txnHash rq) cp (cryptoPayments s)
          \<and> \<not> isExpired (now_isExpired w) cp
          \<and> chain_verify w cp (req_txnHash rq) = Verified a f c
          \<and> findById pl_id (cp_planId cp) (paymentPlans s) = Some plan
          \<and> findById u_id (req_userId rq) (users s) = Some u
          \<and> ro_rate (get_rate w (cp_network cp) (cache s)) = Inr r
          \<and> 1 \<le> \<lfloor>a * r / USD_PER_CREDIT\<rfloor>)"
proof (cases "req_paymentId rq \<noteq> [] \<and> req_txnHash rq \<noteq> []")
  case False
  then show ?thesis by (auto simp: verifyCryptoTransaction_def error_response_def)
next
  case ids: True
  show ?thesis
  proof (cases "findByPaymentId (req_paymentId rq) (cryptoPayments s)")
    case None
    then show ?thesis using ids by (simp add: verifyCryptoTransaction_def error_response_def)
  next
    case found: (Some cp)
    show ?thesis
    proof (cases "cp_userId cp = req_userId rq \<and> cp_status cp \<noteq> confirmed
                  \<and> \<not> hash_used_elsewhere (req_txnHash rq) cp (cryptoPayments s)
                  \<and> \<not> isExpired (now_isExpired w) cp")
      case False
      then show ?thesis using ids found
        by (auto simp: verifyCryptoTransaction_def error_response_def already_response_def)
    next
      case guards: True
      have eq: "verifyCryptoTransaction w rq s = submit_and_verify w rq cp s"
        using guards_pass ids found guards by blast
      show ?thesis
      proof (cases "chain_verify w cp (req_txnHash rq)")
        case (NotVerified err)
        then show ?thesis unfolding eq
          by (simp add: submit_and_verify_def Let_def chain_verify_cong error_response_def)
      next
        case cv: (Verified a f c)
        let ?cp2 = "confirmed_payment w rq cp a f c"
        let ?s2 = "s\<lparr>cryptoPayments := save_payment ?cp2 (save_payment (submitted rq cp) (cryptoPayments s))\<rparr>"
        have eq2: "verifyCryptoTransaction w rq s = settle w rq ?cp2 a c ?s2"
          unfolding eq using submit_verified [OF cv] .
        from settle_shape [of w rq ?cp2 a c ?s2]
        show ?thesis
        proof
          assume "transactions (snd (settle w rq ?cp2 a c ?s2)) = transactions ?s2
                  \<and> users (snd (settle w rq ?cp2 a c ?s2)) = users ?s2
                  \<and> cryptoPayments (snd (settle w rq ?cp2 a c ?s2)) = cryptoPayments ?s2
                  \<and> \<not> res_success (fst (settle w rq ?cp2 a c ?s2))"
          then show ?thesis unfolding eq2 by simp
        next
          assume "\<exists>plan u r. findById pl_id (cp_planId ?cp2) (paymentPlans ?s2) = Some plan
                   \<and> findById u_id (req_userId rq) (users ?s2) = Some u
                   \<and> ro_rate (get_rate w (cp_network ?cp2) (cache ?s2)) = Inr r
                   \<and> 1 \<le> \<lfloor>a * r / USD_PER_CREDIT\<rfloor>"
          then obtain plan u r where
            "findById pl_id (cp_planId cp) (paymentPlans s) = Some plan"
            "findById u_id (req_userId rq) (users s) = Some u"
            "ro_rate (get_rate w (cp_network cp) (cache s)) = Inr r"
            "1 \<le> \<lfloor>a * r / USD_PER_CREDIT\<rfloor>"
            by (auto simp: confirm_def submitted_def)
          then show ?thesis using ids found guards cv by blast
        qed
      qed
    qed
  qed
qed

lemma confirmed_guard:
  assumes "req_paymentId rq \<noteq> []" and "req_txnHash rq \<noteq> []"
      and "findByPaymentId (req_paymentId rq) (cryptoPayments s) = Some cp"
      and "cp_userId cp = req_userId rq" and "cp_status cp = confirmed"
  shows "verifyCryptoTransaction w rq s =
           (already_response ''This payment has already been confirmed'', s)"
  using assms by (simp add: verifyCryptoTransaction_def)

lemma success_leaves_confirmed:
  assumes ok: "res_success (fst (verifyCryptoTransaction w rq s))"
  shows "\<exists>cp'. req_paymentId rq \<noteq> [] \<and> req_txnHash rq \<noteq> []
           \<and> findByPaymentId (req_paymentId rq) (cryptoPayments (snd (verifyCryptoTransaction w rq s)))
               = Some cp'
           \<and> cp_userId cp' = req_userId rq \<and> cp_status cp' = confirmed"
proof -
  from verify_shape [of w rq s] ok
  obtain cp a f c plan u r where
        pid: "req_paymentId rq \<noteq> []" and h: "req_txnHash rq \<noteq> []"
    and found: "findByPaymentId (req_paymentId rq) (cryptoPayments s) = Some cp"
    and owner: "cp_userId cp = req_userId rq" and open_: "cp_status cp \<noteq> confirmed"
    and fresh: "\<not> hash_used_elsewhere (req_txnHash rq) cp (cryptoPayments s)"
    and in_time: "\<not> isExpired (now_isExpired w) cp"
    and cv: "chain_verify w cp (req_txnHash rq) = Verified a f c"
    and plan: "findById pl_id (cp_planId cp) (paymentPlans s) = Some plan"
    and user: "findById u_id (req_userId rq) (users s) = Some u"
    and rate: "ro_rate (get_rate w (cp_network cp) (cache s)) = Inr r"
    and credits: "1 \<le> \<lfloor>a * r / USD_PER_CREDIT\<rfloor>"
    by blast
  from reaches_commit [OF pid h found owner open_ fresh in_time cv plan user rate credits]
  obtain s3 where all: "verifyCryptoTransaction w rq s =
        commit rq (settled_payment w rq cp a f c r) plan u (a * r) \<lfloor>a * r / USD_PER_CREDIT\<rfloor> c s3"
    and f3: "findByPaymentId (req_paymentId rq) (cryptoPayments s3) = Some (settled_payment w rq cp a f c r)"
    by blast
  have "findByPaymentId (req_paymentId rq) (cryptoPayments (snd (verifyCryptoTransaction w rq s)))
           = Some (settled_payment w rq cp a f c r)"
    unfolding all commit_payments by (rule f3)
  moreover have "cp_userId (settled_payment w rq cp a f c r) = req_userId rq"
    "cp_status (settled_payment w rq cp a f c r) = confirmed"
    using owner by (simp_all add: confirm_def submitted_def)
  ultimately show ?thesis using pid h by blast
qed

lemma retry_is_short_circuited:
  assumes ok: "res_success (fst (verifyCryptoTransaction w rq s))"
  shows "verifyCryptoTransaction w' rq (snd (verifyCryptoTransaction w rq s)) =
           (already_response ''This payment has already been confirmed'',
            snd (verifyCryptoTransaction w rq s))"
  using success_leaves_confirmed [OF ok] confirmed_guard by blast

lemma demo_first_settlement:
  "fst (verifyCryptoTransaction (demo_world 105 1) sol_request demo_server) =
     success_response
       \<lparr>p_verified = True, p_quotaAdded = 44, p_newAvailableUsage = 84, p_transactionId = 200,
        p_amount = 20, p_confirmationCount = 40, p_alreadyProcessed = False\<rparr>"
proof -
  let ?w = "demo_world 105 1"
  have q: "\<lfloor>(1::real) * 20 / USD_PER_CREDIT\<rfloor> = 44" by (simp add: USD_PER_CREDIT_def)
  have "fst (verifyCryptoTransaction ?w sol_request demo_server) =
           success_response
             \<lparr>p_verified = True, p_quotaAdded = \<lfloor>1 * 20 / USD_PER_CREDIT\<rfloor>,
              p_newAvailableUsage = u_availableUsage alice + \<lfloor>1 * 20 / USD_PER_CREDIT\<rfloor>,
              p_transactionId = next_object_id demo_server,
              p_amount = 1 * 20, p_confirmationCount = 40,
              p_alreadyProcessed = False\<rparr>"
  proof (rule sol_settlement(1) [where cp = sol_payment and f = "Some ''SenderOfSol''" and plan = starter_plan])
    show "req_paymentId sol_request \<noteq> []" "req_txnHash sol_request \<noteq> []"
      by (simp_all add: demo_requests)
    show "findByPaymentId (req_paymentId sol_request) (cryptoPayments demo_server) = Some sol_payment"
      by (simp add: demo_requests demo_find_sol)
    show "cp_userId sol_payment = req_userId sol_request" "cp_status sol_payment \<noteq> confirmed"
      "cp_network sol_payment = SOL"
      by (simp_all add: demo_requests demo_payments)
    show "\<not> hash_used_elsewhere (req_txnHash sol_request) sol_payment (cryptoPayments demo_server)"
      by (rule demo_fresh_sol)
    show "\<not> isExpired (now_isExpired ?w) sol_payment"
      by (simp add: isExpired_def demo_world_fields demo_payments)
    show "verifySOLTransaction ?w (req_txnHash sol_request) (cp_walletAddress sol_payment)
            (Some (cp_memo sol_payment)) = Verified 1 (Some ''SenderOfSol'') 40"
      by (simp add: demo_world_fields demo_requests demo_payments)
    show "findById pl_id (cp_planId sol_payment) (paymentPlans demo_server) = Some starter_plan"
      by (simp add: demo_payments demo_plan)
    show "findById u_id (req_userId sol_request) (users demo_server) = Some alice"
      by (simp add: demo_requests demo_user)
    show "ro_rate (getSolUsdRate (now_rate ?w) (rates ?w) (cache demo_server)) = Inr 20"
      by (simp add: demo_world_fields demo_server_fields(3) demo_sol_rate)
    show "1 \<le> \<lfloor>(1::real) * 20 / USD_PER_CREDIT\<rfloor>" by (simp add: USD_PER_CREDIT_def)
    show "find (\<lambda>t. t_cryptoTransactionHash t = Some (req_txnHash sol_request)) (transactions demo_server) = None"
      by (simp add: demo_server_fields(1))
  qed
  then show ?thesis
    by (simp add: USD_PER_CREDIT_def alice_def demo_server_fields(4))
qed





















lemma duplicate_hash_never_settles:
  assumes found: "findByPaymentId (req_paymentId rq) (cryptoPayments s) = Some B"
      and other: "A \<in> set (cryptoPayments s)" "cp_id A \<noteq> cp_id B"
      and settled: "cp_status A = confirmed" "cp_transactionHash A = Some (req_txnHash rq)"
  shows "snd (verifyCryptoTransaction w rq s) = s \<and> \<not> res_success (fst (verifyCryptoTransaction w rq s))"
proof -
  have "hash_used_elsewhere (req_txnHash rq) B (cryptoPayments s)"
    using other settled by (auto simp: hash_used_elsewhere_iff)
  then show ?thesis
    using found by (simp add: verifyCryptoTransaction_def error_response_def already_response_def)
qed


section \<open>The claims\<close>



text \<open>
  C2, counterexample: alice settles her Solana payment (44 credits, transaction 200) and
  submits the same payment id and hash again. The second response has \<open>success = false\<close>,
  the error \<open>This payment has already been confirmed\<close> and no data, so it carries neither
  \<open>quotaAdded\<close> nor \<open>transactionId\<close>.
\<close>

theorem retry_is_not_the_success_payload:
  "res_success (fst (verifyCryptoTransaction (demo_world 105 1) sol_request demo_server))
   \<and> map_option p_quotaAdded
        (res_data (fst (verifyCryptoTransaction (demo_world 105 1) sol_request demo_server))) = Some 44
   \<and> map_option p_transactionId
        (res_data (fst (verifyCryptoTransaction (demo_world 105 1) sol_request demo_server))) = Some 200
   \<and> \<not> res_success (fst (verifyCryptoTransaction (demo_world 105 1) sol_request
                            (snd (verifyCryptoTransaction (demo_world 105 1) sol_request demo_server))))
   \<and> res_error (fst (verifyCryptoTransaction (demo_world 105 1) sol_request
                        (snd (verifyCryptoTransaction (demo_world 105 1) sol_request demo_server))))
       = Some ''This payment has already been confirmed''
   \<and> res_data (fst (verifyCryptoTransaction (demo_world 105 1) sol_request
                       (snd (verifyCryptoTransaction (demo_world 105 1) sol_request demo_server))))
       = None"
proof -
  have ok: "res_success (fst (verifyCryptoTransaction (demo_world 105 1) sol_request demo_server))"
    by (simp add: demo_first_settlement success_response_def)
  show ?thesis
    using retry_is_short_circuited [OF ok, of "demo_world 105 1"]
    by (simp add: demo_first_settlement success_response_def already_response_def)
qed

text \<open>
  C2, as amended. After a successful settlement, a second call with the same payment id and
  hash (whatever the chain and the clock say by then) leaves the server as it is, so no
  Transaction is created and no credits are granted, and it answers with status 200,
  \<open>success = false\<close>, the error \<open>This payment has already been confirmed\<close>,
  \<open>alreadyProcessed = true\<close> and no data. The same answer is given for every payment of
  the caller that is found in status \<open>confirmed\<close>.
\<close>

theorem retry_after_settlement:
  "(res_success (fst (verifyCryptoTransaction w rq s)) \<longrightarrow>
      verifyCryptoTransaction w' rq (snd (verifyCryptoTransaction w rq s)) =
        (already_response ''This payment has already been confirmed'',
         snd (verifyCryptoTransaction w rq s)))
   \<and> (req_paymentId rq \<noteq> [] \<and> req_txnHash rq \<noteq> []
        \<and> findByPaymentId (req_paymentId rq) (cryptoPayments s) = Some cp
        \<and> cp_userId cp = req_userId rq \<and> cp_status cp = confirmed \<longrightarrow>
      verifyCryptoTransaction w rq s = (already_response ''This payment has already been confirmed'', s))
   \<and> res_status (already_response m) = 200 \<and> \<not> res_success (already_response m)
   \<and> res_error (already_response m) = Some m \<and> res_alreadyProcessed (already_response m)
   \<and> res_data (already_response m) = None"
  using retry_is_short_circuited confirmed_guard by (simp add: already_response_def)

text \<open>
  C2, witness: the retry of alice's settled Solana payment.
\<close>

theorem retry_after_settlement_witness:
  "res_success (fst (verifyCryptoTransaction (demo_world 105 1) sol_request demo_server))
   \<and> verifyCryptoTransaction (demo_world 106 1) sol_request
        (snd (verifyCryptoTransaction (demo_world 105 1) sol_request demo_server))
      = (already_response ''This payment has already been confirmed'',
         snd (verifyCryptoTransaction (demo_world 105 1) sol_request demo_server))"
proof -
  have ok: "res_success (fst (verifyCryptoTransaction (demo_world 105 1) sol_request demo_server))"
    by (simp add: demo_first_settlement success_response_def)
  then show ?thesis
    using retry_after_settlement [of "demo_world 105 1" sol_request demo_server "demo_world 106 1"]
    by blast
qed

text \<open>
  C3. The claim: credits are \<open>floor(a * r / 0.45)\<close>, granted when at least 1 together with
  a Transaction in integer cents, so that 10 USDT at rate 1.0 add 22 credits. On the BEP20
  path the code reaches the claimed count and then loses it: \<open>Transaction.create\<close> is
  handed \<open>cryptoNetwork = 'BEP20'\<close>, which the schema's enum (\<open>SOL\<close>, \<open>USDT\<close>,
  \<open>USDC\<close>) refuses, the handler's \<open>catch\<close> answers 500, and neither a Transaction nor
  credits exist afterwards. The theorem runs the code on the claim's own example.
\<close>

theorem usdt_settlement_fails:
  "chain_verify (demo_world 105 1) usdt_payment (req_txnHash usdt_request)
     = Verified 10 (Some ''0x2222222222222222222222222222222222222222'') 5
   \<and> ro_rate (get_rate (demo_world 105 1) BEP20 (cache demo_server)) = Inr 1
   \<and> \<lfloor>10 * 1 / USD_PER_CREDIT\<rfloor> = 22
   \<and> fst (verifyCryptoTransaction (demo_world 105 1) usdt_request demo_server)
       = error_response 500 ''Failed to verify crypto transaction''
   \<and> transactions (snd (verifyCryptoTransaction (demo_world 105 1) usdt_request demo_server)) = []
   \<and> users (snd (verifyCryptoTransaction (demo_world 105 1) usdt_request demo_server)) = [alice, bob]"
proof -
  let ?w = "demo_world 105 1"
  have cv: "chain_verify ?w usdt_payment (req_txnHash usdt_request)
              = Verified 10 (Some ''0x2222222222222222222222222222222222222222'') 5"
    using demo_bep20_verified [of 105]
    by (simp add: chain_verify_def demo_payments demo_world_fields demo_requests)
  have rate: "ro_rate (get_rate ?w (cp_network usdt_payment) (cache demo_server)) = Inr 1"
    by (simp add: get_rate_def demo_payments demo_world_fields demo_server_fields demo_usdt_rate)
  have credits: "\<lfloor>(10::real) * 1 / USD_PER_CREDIT\<rfloor> = 22"
    by (simp add: USD_PER_CREDIT_def)
  have credits1: "1 \<le> \<lfloor>(10::real) * 1 / USD_PER_CREDIT\<rfloor>" by (simp add: USD_PER_CREDIT_def)
  have "\<not> isExpired (now_isExpired ?w) usdt_payment"
    by (simp add: isExpired_def demo_world_fields demo_payments)
  with reaches_commit [of usdt_request demo_server usdt_payment ?w 10 _ 5 starter_plan alice 1]
       demo_find_usdt demo_fresh_usdt demo_plan demo_user cv rate credits1
  obtain s3 where s3: "verifyCryptoTransaction ?w usdt_request demo_server =
        commit usdt_request
          (settled_payment ?w usdt_request usdt_payment 10 (Some ''0x2222222222222222222222222222222222222222'') 5 1)
          starter_plan alice (10 * 1) \<lfloor>10 * 1 / USD_PER_CREDIT\<rfloor> 5 s3"
      and tx: "transactions s3 = transactions demo_server" and us: "users s3 = users demo_server"
    by (auto simp: demo_requests demo_payments)
  have "find (\<lambda>t. t_cryptoTransactionHash t = Some (req_txnHash usdt_request)) (transactions s3) = None"
    by (simp add: tx demo_server_fields)
  then have "verifyCryptoTransaction ?w usdt_request demo_server = (server_error, s3)"
    unfolding s3 by (intro commit_bep20) (simp_all add: confirm_def submitted_def demo_payments)
  then show ?thesis
    using cv rate credits tx us
    by (simp add: server_error_def demo_server_fields demo_payments)
qed

text \<open>
  C4. Let payment A be confirmed with hash H and let B be another payment record. A call of
  \<open>/verify-crypto-transaction\<close> that submits H for B never succeeds and leaves the server
  unchanged, so no credits are granted, whoever owns A and whoever calls. When the caller
  owns B and B is not confirmed itself (the two guards that come first), the answer is the
  duplicate-hash error.
\<close>

theorem hash_of_another_payment_is_rejected:
  assumes found: "findByPaymentId (req_paymentId rq) (cryptoPayments s) = Some B"
      and other: "A \<in> set (cryptoPayments s)" "cp_id A \<noteq> cp_id B"
      and settled: "cp_status A = confirmed" "cp_transactionHash A = Some (req_txnHash rq)"
  shows "snd (verifyCryptoTransaction w rq s) = s
         \<and> \<not> res_success (fst (verifyCryptoTransaction w rq s))
         \<and> (req_paymentId rq \<noteq> [] \<and> req_txnHash rq \<noteq> []
              \<and> cp_userId B = req_userId rq \<and> cp_status B \<noteq> confirmed \<longrightarrow>
            fst (verifyCryptoTransaction w rq s) =
              already_response ''This transaction hash has already been used for another payment'')"
proof -
  have used: "hash_used_elsewhere (req_txnHash rq) B (cryptoPayments s)"
    using other settled by (auto simp: hash_used_elsewhere_iff)
  have "req_paymentId rq \<noteq> [] \<and> req_txnHash rq \<noteq> []
          \<and> cp_userId B = req_userId rq \<and> cp_status B \<noteq> confirmed \<longrightarrow>
        fst (verifyCryptoTransaction w rq s) =
          already_response ''This transaction hash has already been used for another payment''"
    using found used by (simp add: verifyCryptoTransaction_def)
  then show ?thesis
    using duplicate_hash_never_settles [OF found other settled] by blast
qed

text \<open>
  C4, witness: bob's payment is confirmed with \<open>SIG1\<close>; alice submits \<open>SIG1\<close> for hers.
\<close>

theorem hash_of_another_payment_is_rejected_witness:
  "cp_userId bob_payment \<noteq> cp_userId sol_payment
   \<and> verifyCryptoTransaction (demo_world 105 1) sol_request server_with_bob =
       (already_response ''This transaction hash has already been used for another payment'',
        server_with_bob)"
proof -
  have A: "bob_payment \<in> set (cryptoPayments server_with_bob)"
    "cp_id bob_payment \<noteq> cp_id sol_payment" "cp_status bob_payment = confirmed"
    "cp_transactionHash bob_payment = Some (req_txnHash sol_request)"
    by (simp_all add: server_with_bob_def bob_payment_def sol_payment_def demo_requests)
  have B: "findByPaymentId (req_paymentId sol_request) (cryptoPayments server_with_bob) = Some sol_payment"
    by (simp add: demo_requests bob_find_sol)
  have guards: "req_paymentId sol_request \<noteq> [] \<and> req_txnHash sol_request \<noteq> []
                \<and> cp_userId sol_payment = req_userId sol_request \<and> cp_status sol_payment \<noteq> confirmed"
    by (simp add: demo_requests demo_payments)
  have users: "cp_userId bob_payment \<noteq> cp_userId sol_payment"
    by (simp add: bob_payment_def sol_payment_def)
  from hash_of_another_payment_is_rejected [OF B A, of "demo_world 105 1"] guards
  have "snd (verifyCryptoTransaction (demo_world 105 1) sol_request server_with_bob) = server_with_bob"
    and "fst (verifyCryptoTransaction (demo_world 105 1) sol_request server_with_bob) =
           already_response ''This transaction hash has already been used for another payment''"
    by blast+
  then show ?thesis using users by (simp add: prod_eq_iff)
qed



text \<open>
  C6. The claim: a verified transfer worth zero credits (0.01 SOL at 20 USD) is answered with
  the insufficient-amount error, grants nothing, and leaves the payment \<open>failed\<close>. The code
  answers with that error and grants nothing, but it has saved \<open>confirm(...)\<close> before the
  conversion and returns without calling \<open>fail\<close>: the payment stays \<open>confirmed\<close>.
\<close>

theorem dust_leaves_payment_confirmed:
  "chain_verify (demo_world 105 (1 / 100)) sol_payment (req_txnHash sol_request)
     = Verified (1 / 100) (Some ''SenderOfSol'') 40
   \<and> ro_rate (get_rate (demo_world 105 (1 / 100)) SOL (cache demo_server)) = Inr 20
   \<and> fst (verifyCryptoTransaction (demo_world 105 (1 / 100)) sol_request demo_server)
       = error_response 400 ''Insufficient amount. Sent ~$0.20; minimum 1 credit requires $0.45.''
   \<and> map_option cp_status
        (findByPaymentId ''crypto-1-sol''
           (cryptoPayments (snd (verifyCryptoTransaction (demo_world 105 (1 / 100)) sol_request demo_server))))
       = Some confirmed
   \<and> transactions (snd (verifyCryptoTransaction (demo_world 105 (1 / 100)) sol_request demo_server)) = []
   \<and> users (snd (verifyCryptoTransaction (demo_world 105 (1 / 100)) sol_request demo_server)) = [alice, bob]"
proof -
  let ?w = "demo_world 105 (1 / 100)"
  let ?cp1 = "submitted sol_request sol_payment"
  let ?cp2 = "confirmed_payment ?w sol_request sol_payment (1 / 100) (Some ''SenderOfSol'') 40"
  let ?s2 = "demo_server\<lparr>cryptoPayments := save_payment ?cp2 (save_payment ?cp1 (cryptoPayments demo_server))\<rparr>"
  have cv: "chain_verify ?w sol_payment (req_txnHash sol_request)
              = Verified (1 / 100) (Some ''SenderOfSol'') 40"
    by (simp add: chain_verify_def demo_payments demo_world_fields demo_requests)
  have rate: "ro_rate (get_rate ?w SOL (cache demo_server)) = Inr 20"
    by (simp add: get_rate_def demo_world_fields demo_server_fields demo_sol_rate)
  have guards: "verifyCryptoTransaction ?w sol_request demo_server
                  = submit_and_verify ?w sol_request sol_payment demo_server"
    using demo_find_sol demo_fresh_sol
    by (intro guards_pass) (simp_all add: demo_requests demo_payments isExpired_def demo_world_fields)
  have step1: "verifyCryptoTransaction ?w sol_request demo_server
                 = settle ?w sol_request ?cp2 (1 / 100) 40 ?s2"
    using guards submit_verified [OF cv] by simp
  have "settle ?w sol_request ?cp2 (1 / 100) 40 ?s2 =
          (error_response 400 (insufficient_message (1 / 100 * 20)),
           ?s2\<lparr>cache := ro_cache (get_rate ?w (cp_network ?cp2) (cache ?s2))\<rparr>)"
    using demo_plan demo_user rate
    by (intro settle_insufficient [where plan = starter_plan and u = alice])
       (simp_all add: confirm_def submitted_def demo_payments demo_requests USD_PER_CREDIT_def)
  then have all: "verifyCryptoTransaction ?w sol_request demo_server =
          (error_response 400 (insufficient_message (1 / 100 * 20)),
           ?s2\<lparr>cache := ro_cache (get_rate ?w (cp_network ?cp2) (cache ?s2))\<rparr>)"
    using step1 by simp
  have msg: "insufficient_message (1 / 100 * 20)
               = ''Insufficient amount. Sent ~$0.20; minimum 1 credit requires $0.45.''"
    by (simp add: insufficient_message_def toFixed2_def Math_round_def USD_PER_CREDIT_def Let_def
          show_nat.simps digit_char_def pad2_def)
  have f1: "findByPaymentId ''crypto-1-sol'' (save_payment ?cp1 (cryptoPayments demo_server)) = Some ?cp1"
    using find_after_save [OF demo_find_sol, of ?cp1] by (simp add: submitted_def sol_payment_def)
  have f2: "findByPaymentId ''crypto-1-sol'' (save_payment ?cp2 (save_payment ?cp1 (cryptoPayments demo_server)))
              = Some ?cp2"
    using find_after_save [OF f1, of ?cp2] by (simp add: submitted_def confirm_def sol_payment_def)
  show ?thesis
    using cv rate f2 unfolding all msg
    by (simp add: demo_server_fields confirm_def)
qed

text \<open>
  C7, counterexample: the BSC receipt of alice's transfer is two blocks deep. The verifier
  answers "needs at least 3 confirmations", and the handler stores the payment as
  \<open>failed\<close>.
\<close>

theorem recoverable_failure_marks_failed:
  "chain_verify (demo_world 102 1) usdt_payment (req_txnHash usdt_request)
     = NotVerified ''Transaction needs at least 3 confirmations. Current: 2''
   \<and> fst (verifyCryptoTransaction (demo_world 102 1) usdt_request demo_server)
       = error_response 400 ''Transaction needs at least 3 confirmations. Current: 2''
   \<and> map_option cp_status
        (findByPaymentId (req_paymentId usdt_request)
           (cryptoPayments (snd (verifyCryptoTransaction (demo_world 102 1) usdt_request demo_server))))
       = Some failed"
proof -
  let ?w = "demo_world 102 1"
  let ?err = "''Transaction needs at least 3 confirmations. Current: 2''"
  have cv: "chain_verify ?w usdt_payment (req_txnHash usdt_request) = NotVerified ?err"
    using demo_bep20_shallow
    by (simp add: chain_verify_def demo_payments demo_world_fields demo_requests)
  have eq: "verifyCryptoTransaction ?w usdt_request demo_server =
           (error_response 400 ?err,
            demo_server\<lparr>cryptoPayments := save_payment (fail ?err (submitted usdt_request usdt_payment))
                                  (save_payment (submitted usdt_request usdt_payment) (cryptoPayments demo_server))\<rparr>)"
    using demo_find_usdt demo_fresh_usdt cv
    by (intro failed_verification)
       (simp_all add: demo_requests demo_payments isExpired_def demo_world_fields)
  have f: "findByPaymentId (req_paymentId usdt_request)
             (save_payment (fail ?err (submitted usdt_request usdt_payment))
                (save_payment (submitted usdt_request usdt_payment) (cryptoPayments demo_server)))
           = Some (fail ?err (submitted usdt_request usdt_payment))"
    using demo_find_usdt by (intro failed_payment_found) (simp add: demo_requests)
  show ?thesis
    using cv f unfolding eq by (simp add: fail_def)
qed

text \<open>
  C7, as amended. Whatever reason the chain verifier gives for not verifying, the handler
  answers 400 with that reason and stores the payment as \<open>failed\<close> with the reason as its
  error message; ledger and users do not change. The failed payment can still be submitted
  again: as long as it has not expired, a later call with the same payment id and hash passes
  the guards and asks the chain once more.
\<close>

theorem verification_failure_marks_failed:
  assumes pid: "req_paymentId rq \<noteq> []" and h: "req_txnHash rq \<noteq> []"
      and found: "findByPaymentId (req_paymentId rq) (cryptoPayments s) = Some cp"
      and owner: "cp_userId cp = req_userId rq"
      and open_: "cp_status cp \<noteq> confirmed"
      and fresh: "\<not> hash_used_elsewhere (req_txnHash rq) cp (cryptoPayments s)"
      and in_time: "now_isExpired w \<le> cp_expiresAt cp"
      and cv: "chain_verify w cp (req_txnHash rq) = NotVerified err" and msg: "err \<noteq> []"
  shows "fst (verifyCryptoTransaction w rq s) = error_response 400 err
         \<and> findByPaymentId (req_paymentId rq) (cryptoPayments (snd (verifyCryptoTransaction w rq s)))
             = Some (fail err (submitted rq cp))
         \<and> cp_status (fail err (submitted rq cp)) = failed
         \<and> cp_errorMessage (fail err (submitted rq cp)) = Some err
         \<and> transactions (snd (verifyCryptoTransaction w rq s)) = transactions s
         \<and> users (snd (verifyCryptoTransaction w rq s)) = users s
         \<and> (now_isExpired w' \<le> cp_expiresAt cp \<longrightarrow>
              verifyCryptoTransaction w' rq (snd (verifyCryptoTransaction w rq s))
                = submit_and_verify w' rq (fail err (submitted rq cp)) (snd (verifyCryptoTransaction w rq s)))"
proof -
  let ?cpf = "fail err (submitted rq cp)"
  let ?s' = "s\<lparr>cryptoPayments := save_payment ?cpf (save_payment (submitted rq cp) (cryptoPayments s))\<rparr>"
  have nexp: "\<not> isExpired (now_isExpired w) cp" using in_time by (simp add: isExpired_def)
  have eq: "verifyCryptoTransaction w rq s = (error_response 400 err, ?s')"
    using failed_verification [OF pid h found owner open_ fresh nexp cv msg] .
  have f: "findByPaymentId (req_paymentId rq) (cryptoPayments ?s') = Some ?cpf"
    using failed_payment_found [OF found] by simp
  have again: "verifyCryptoTransaction w' rq ?s' = submit_and_verify w' rq ?cpf ?s'"
    if "now_isExpired w' \<le> cp_expiresAt cp"
  proof (rule guards_pass [OF pid h f])
    show "cp_userId ?cpf = req_userId rq" using owner by (simp add: fail_def submitted_def)
    show "cp_status ?cpf \<noteq> confirmed" by (simp add: fail_def)
    show "\<not> hash_used_elsewhere (req_txnHash rq) ?cpf (cryptoPayments ?s')"
      using fresh by (simp add: failed_payment_fresh)
    show "\<not> isExpired (now_isExpired w') ?cpf"
      using that by (simp add: isExpired_def fail_def submitted_def)
  qed
  show ?thesis
    using f again unfolding eq by (simp add: fail_def)
qed

text \<open>
  C7, witness: the Solana node does not know \<open>SIG1\<close> yet and alice's payment is stored as
  \<open>failed\<close>; submitted again once the node knows it, the payment yields 44 credits.
\<close>

theorem verification_failure_marks_failed_witness:
  "fst (verifyCryptoTransaction early_world sol_request demo_server)
     = error_response 400 ''Transaction not found on blockchain (no status)''
   \<and> map_option cp_status
        (findByPaymentId (req_paymentId sol_request)
           (cryptoPayments (snd (verifyCryptoTransaction early_world sol_request demo_server))))
       = Some failed
   \<and> res_success (fst (verifyCryptoTransaction (demo_world 105 1) sol_request
                          (snd (verifyCryptoTransaction early_world sol_request demo_server))))
   \<and> map_option p_quotaAdded
        (res_data (fst (verifyCryptoTransaction (demo_world 105 1) sol_request
                          (snd (verifyCryptoTransaction early_world sol_request demo_server)))))
       = Some 44"
proof -
  let ?err = "''Transaction not found on blockchain (no status)''"
  let ?cpf = "fail ?err (submitted sol_request sol_payment)"
  let ?w' = "demo_world 105 1"
  let ?s1 = "snd (verifyCryptoTransaction early_world sol_request demo_server)"
  have pre: "req_paymentId sol_request \<noteq> []" "req_txnHash sol_request \<noteq> []"
    "findByPaymentId (req_paymentId sol_request) (cryptoPayments demo_server) = Some sol_payment"
    "cp_userId sol_payment = req_userId sol_request" "cp_status sol_payment \<noteq> confirmed"
    "\<not> hash_used_elsewhere (req_txnHash sol_request) sol_payment (cryptoPayments demo_server)"
    by (simp_all add: demo_requests demo_payments demo_find_sol demo_fresh_sol)
  have t1: "now_isExpired early_world \<le> cp_expiresAt sol_payment"
    by (simp add: world_fields_early demo_payments)
  have t1': "\<not> isExpired (now_isExpired early_world) sol_payment"
    using t1 by (simp add: isExpired_def)
  have cv: "chain_verify early_world sol_payment (req_txnHash sol_request) = NotVerified ?err"
    by (simp add: chain_verify_def demo_payments world_fields_early)
  have msg: "?err \<noteq> []" by simp
  note T = verification_failure_marks_failed [OF pre t1 cv msg, of ?w']
  have s1: "?s1 = demo_server\<lparr>cryptoPayments := save_payment ?cpf
                      (save_payment (submitted sol_request sol_payment) (cryptoPayments demo_server))\<rparr>"
    using failed_verification [OF pre t1' cv msg] by simp
  have found1: "findByPaymentId (req_paymentId sol_request) (cryptoPayments ?s1) = Some ?cpf"
    using T by blast
  have fresh1: "\<not> hash_used_elsewhere (req_txnHash sol_request) ?cpf (cryptoPayments ?s1)"
    unfolding s1 using pre(6) by (simp add: failed_payment_fresh)
  have "fst (verifyCryptoTransaction ?w' sol_request ?s1) =
           success_response
             \<lparr>p_verified = True, p_quotaAdded = \<lfloor>1 * 20 / USD_PER_CREDIT\<rfloor>,
              p_newAvailableUsage = u_availableUsage alice + \<lfloor>1 * 20 / USD_PER_CREDIT\<rfloor>,
              p_transactionId = next_object_id ?s1,
              p_amount = 1 * 20, p_confirmationCount = 40,
              p_alreadyProcessed = False\<rparr>"
  proof (rule sol_settlement(1) [OF pre(1,2) found1 _ _ fresh1, where f = "Some ''SenderOfSol''" and plan = starter_plan])
    show "cp_userId ?cpf = req_userId sol_request"
      by (simp add: fail_def submitted_def demo_payments demo_requests)
    show "cp_status ?cpf \<noteq> confirmed" by (simp add: fail_def)
    show "\<not> isExpired (now_isExpired ?w') ?cpf"
      by (simp add: isExpired_def fail_def submitted_def demo_payments demo_world_fields)
    show "cp_network ?cpf = SOL" by (simp add: fail_def submitted_def demo_payments)
    show "verifySOLTransaction ?w' (req_txnHash sol_request) (cp_walletAddress ?cpf) (Some (cp_memo ?cpf))
            = Verified 1 (Some ''SenderOfSol'') 40"
      by (simp add: fail_def submitted_def demo_payments demo_world_fields demo_requests)
    show "findById pl_id (cp_planId ?cpf) (paymentPlans ?s1) = Some starter_plan"
      unfolding s1 using demo_plan by (simp add: fail_def submitted_def demo_payments)
    show "findById u_id (req_userId sol_request) (users ?s1) = Some alice"
      unfolding s1 using demo_user by (simp add: demo_requests)
    show "ro_rate (getSolUsdRate (now_rate ?w') (rates ?w') (cache ?s1)) = Inr 20"
      unfolding s1 by (simp add: demo_world_fields demo_server_fields(3) demo_sol_rate)
    show "1 \<le> \<lfloor>(1::real) * 20 / USD_PER_CREDIT\<rfloor>" by (simp add: USD_PER_CREDIT_def)
    show "find (\<lambda>t. t_cryptoTransactionHash t = Some (req_txnHash sol_request)) (transactions ?s1) = None"
      unfolding s1 by (simp add: demo_server_fields(1))
  qed
  then have ok: "res_success (fst (verifyCryptoTransaction ?w' sol_request ?s1))
      \<and> map_option p_quotaAdded (res_data (fst (verifyCryptoTransaction ?w' sol_request ?s1))) = Some 44"
    by (simp add: success_response_def USD_PER_CREDIT_def)
  show ?thesis using T ok by (simp add: fail_def)
qed

text \<open>
  C8. For a BEP20 transaction whose receipt is found with success status,
  \<open>verifyBEP20Transaction\<close> takes the confirmation depth to be the current block number
  minus the receipt's block number. When the depth is below the minimum of 3 the result is
  \<open>verified = false\<close> with a message that carries the required minimum and the current
  depth, and this result differs from the ones for a missing and for a failed transaction.
\<close>

theorem confirmation_floor:
  assumes url: "BSC_RPC_URL ch = Some url"
      and rcpt: "getTransactionReceipt ch h = Inr (Some r)"
      and ok: "r_status r = Some 1"
      and head: "getBlockNumber ch = Inr cur"
      and shallow: "cur - r_blockNumber r < 3"
  shows "verifyBEP20Transaction ch h addr amt memo =
           NotVerified (''Transaction needs at least '' @ show_int 3 @ '' confirmations. Current: ''
                        @ show_int (cur - r_blockNumber r))
         \<and> verifyBEP20Transaction ch h addr amt memo \<noteq> NotVerified ''Transaction not found on blockchain''
         \<and> verifyBEP20Transaction ch h addr amt memo \<noteq> NotVerified ''Transaction failed on blockchain''"
  using assms by (simp add: verifyBEP20Transaction_def minConfirmations_def Let_def)

text \<open>
  C8, witness: a receipt in block 100 with the head at block 102 has depth 2.
\<close>

theorem confirmation_floor_witness:
  "getTransactionReceipt (bsc_node 102) ''0xabc123'' = Inr (Some usdt_receipt)
   \<and> r_status usdt_receipt = Some 1
   \<and> getBlockNumber (bsc_node 102) = Inr 102
   \<and> r_blockNumber usdt_receipt = 100
   \<and> verifyBEP20Transaction (bsc_node 102) ''0xabc123'' usdt_wallet None (Some ''TXN-7-2-usdt'')
       = NotVerified ''Transaction needs at least 3 confirmations. Current: 2''"
proof -
  have url: "BSC_RPC_URL (bsc_node 102) = Some ''https://bsc-dataseed.binance.org''"
    by (simp add: bsc_node_def)
  have rcpt: "getTransactionReceipt (bsc_node 102) ''0xabc123'' = Inr (Some usdt_receipt)"
    by (simp add: bsc_node_def)
  have ok: "r_status usdt_receipt = Some 1" by (simp add: usdt_receipt_def)
  have head: "getBlockNumber (bsc_node 102) = Inr 102" by (simp add: bsc_node_def)
  have blk: "r_blockNumber usdt_receipt = 100" by (simp add: usdt_receipt_def)
  have shallow: "(102::int) - r_blockNumber usdt_receipt < 3" by (simp add: blk)
  have "verifyBEP20Transaction (bsc_node 102) ''0xabc123'' usdt_wallet None (Some ''TXN-7-2-usdt'')
          = NotVerified (''Transaction needs at least '' @ show_int 3 @ '' confirmations. Current: ''
                         @ show_int (102 - r_blockNumber usdt_receipt))"
    using confirmation_floor [OF url rcpt ok head shallow] by blast
  then show ?thesis
    using rcpt ok head blk by (simp add: show_int_def show_nat.simps digit_char_def)
qed

text \<open>
  C9. \<open>getUsdtUsdRate\<close>: a cached value that has not expired is returned as it is, with no
  request to the price feed. Otherwise, when the fetch fails, the function does not throw:
  it returns the override of \<open>USDT_USD_FALLBACK_RATE\<close> when that is set to a positive
  number and 1.0 if not, and caches the value returned for 60 seconds from now.
\<close>

theorem usdt_rate_cache_and_fallback:
  "(ce_value (usdtUsd c) = Some v \<and> v \<noteq> 0 \<and> now < ce_expiresAt (usdtUsd c)
      \<longrightarrow> getUsdtUsdRate now env c = \<lparr>ro_rate = Inr v, ro_cache = c, ro_network_calls = 0\<rparr>)
   \<and> (\<not> (truthy_number (ce_value (usdtUsd c)) \<and> now < ce_expiresAt (usdtUsd c))
        \<and> fetch_fails (fetch_tether env)
      \<longrightarrow> (\<exists>f. getUsdtUsdRate now env c =
                 \<lparr>ro_rate = Inr f,
                  ro_cache = c\<lparr>usdtUsd := \<lparr>ce_value = Some f, ce_expiresAt = now + 60 * 1000\<rparr>\<rparr>,
                  ro_network_calls = 1\<rparr>
               \<and> (\<forall>s x. USDT_USD_FALLBACK_RATE env = Some s \<and> s \<noteq> [] \<and> parseFloat env s = Some x
                          \<and> 0 < x \<longrightarrow> f = x)
               \<and> ((\<nexists>s x. USDT_USD_FALLBACK_RATE env = Some s \<and> s \<noteq> [] \<and> parseFloat env s = Some x
                          \<and> 0 < x) \<longrightarrow> f = 1)))"
proof (intro conjI impI)
  assume "ce_value (usdtUsd c) = Some v \<and> v \<noteq> 0 \<and> now < ce_expiresAt (usdtUsd c)"
  then show "getUsdtUsdRate now env c = \<lparr>ro_rate = Inr v, ro_cache = c, ro_network_calls = 0\<rparr>"
    by (simp add: getUsdtUsdRate_def truthy_number_def)
next
  assume a: "\<not> (truthy_number (ce_value (usdtUsd c)) \<and> now < ce_expiresAt (usdtUsd c))
        \<and> fetch_fails (fetch_tether env)"
  then obtain err where e: "valid_rate (fetch_tether env) ''Invalid USDT/USD rate from provider'' = Inl err"
    using valid_rate_fails by blast
  show "\<exists>f. getUsdtUsdRate now env c =
                 \<lparr>ro_rate = Inr f,
                  ro_cache = c\<lparr>usdtUsd := \<lparr>ce_value = Some f, ce_expiresAt = now + 60 * 1000\<rparr>\<rparr>,
                  ro_network_calls = 1\<rparr>
               \<and> (\<forall>s x. USDT_USD_FALLBACK_RATE env = Some s \<and> s \<noteq> [] \<and> parseFloat env s = Some x
                          \<and> 0 < x \<longrightarrow> f = x)
               \<and> ((\<nexists>s x. USDT_USD_FALLBACK_RATE env = Some s \<and> s \<noteq> [] \<and> parseFloat env s = Some x
                          \<and> 0 < x) \<longrightarrow> f = 1)"
    using a e
    by (auto simp: getUsdtUsdRate_def ONE_MINUTE_MS_def Let_def truthy_string_def
             split: option.splits)
qed

text \<open>
  C9, witness: a cache entry valid until 5000 is returned at 1000 without a fetch; at 9000,
  with the feed down, the rate is 1 (cached until 69000), or 0.98 when the override says so.
\<close>

theorem usdt_rate_cache_and_fallback_witness:
  "getUsdtUsdRate 1000 (tether_down None) warm_cache
     = \<lparr>ro_rate = Inr (999 / 1000), ro_cache = warm_cache, ro_network_calls = 0\<rparr>
   \<and> ro_rate (getUsdtUsdRate 9000 (tether_down None) warm_cache) = Inr 1
   \<and> ce_expiresAt (usdtUsd (ro_cache (getUsdtUsdRate 9000 (tether_down None) warm_cache))) = 69000
   \<and> ro_rate (getUsdtUsdRate 9000 (tether_down (Some ''0.98'')) warm_cache) = Inr (98 / 100)"
proof -
  have hit: "ce_value (usdtUsd warm_cache) = Some (999 / 1000) \<and> (999 / 1000 :: real) \<noteq> 0
             \<and> 1000 < ce_expiresAt (usdtUsd warm_cache)"
    by (simp add: warm_cache_def)
  have miss: "\<not> (truthy_number (ce_value (usdtUsd warm_cache)) \<and> 9000 < ce_expiresAt (usdtUsd warm_cache))
              \<and> fetch_fails (fetch_tether (tether_down ov))" for ov
    by (simp add: warm_cache_def tether_down_def fetch_fails_def)
  have none: "\<nexists>s x. USDT_USD_FALLBACK_RATE (tether_down None) = Some s \<and> s \<noteq> []
                     \<and> parseFloat (tether_down None) s = Some x \<and> 0 < x"
    by (simp add: tether_down_def)
  have some: "USDT_USD_FALLBACK_RATE (tether_down (Some ''0.98'')) = Some ''0.98'' \<and> ''0.98'' \<noteq> []
              \<and> parseFloat (tether_down (Some ''0.98'')) ''0.98'' = Some (98 / 100) \<and> (0::real) < 98 / 100"
    by (simp add: tether_down_def)
  from usdt_rate_cache_and_fallback [of warm_cache "999 / 1000" 1000 "tether_down None"] hit
  have 1: "getUsdtUsdRate 1000 (tether_down None) warm_cache
             = \<lparr>ro_rate = Inr (999 / 1000), ro_cache = warm_cache, ro_network_calls = 0\<rparr>"
    by blast
  from usdt_rate_cache_and_fallback [of warm_cache 0 9000 "tether_down None"] miss [of None] none
  obtain f where f: "getUsdtUsdRate 9000 (tether_down None) warm_cache =
                 \<lparr>ro_rate = Inr f,
                  ro_cache = warm_cache\<lparr>usdtUsd := \<lparr>ce_value = Some f, ce_expiresAt = 9000 + 60 * 1000\<rparr>\<rparr>,
                  ro_network_calls = 1\<rparr>" and "f = 1"
    by blast
  from usdt_rate_cache_and_fallback [of warm_cache 0 9000 "tether_down (Some ''0.98'')"]
       miss [of "Some ''0.98''"] some
  obtain g where g: "getUsdtUsdRate 9000 (tether_down (Some ''0.98'')) warm_cache =
                 \<lparr>ro_rate = Inr g,
                  ro_cache = warm_cache\<lparr>usdtUsd := \<lparr>ce_value = Some g, ce_expiresAt = 9000 + 60 * 1000\<rparr>\<rparr>,
                  ro_network_calls = 1\<rparr>" and "g = 98 / 100"
    by blast
  show ?thesis using 1 f \<open>f = 1\<close> g \<open>g = 98 / 100\<close> by simp
qed



end
